theory Spec2Isabelle
  imports Complex_Main
begin

section \<open>JavaScript values\<close>

text \<open>
  The validators of \<^verbatim>\<open>convex/http.ts\<close> take a parameter of type \<^verbatim>\<open>any\<close>: the value
  that \<^verbatim>\<open>JSON.parse\<close> made of the generative model's answer. Such a value is null, a
  boolean, a number, a string, an array or a plain object; reading a missing property gives
  \<^verbatim>\<open>undefined\<close>, which is a value of its own here.

  A finite number is kept as its exact value (a rational); \<^verbatim>\<open>-0\<close> is not told apart
  from \<^verbatim>\<open>0\<close> (both are falsy and both print as \<^verbatim>\<open>0\<close>). The code under study never
  calculates with numbers: it converts, tests for truthiness and stores.
  A string is a list of code units below 256.
  An object is the list of its own properties in insertion order; a lookup takes the first
  entry of a name.
\<close>

datatype jsnum = NaN | PosInfinity | NegInfinity | Fin rat

datatype jsval =
    JUndefined
  | JNull
  | JBool bool
  | JNum jsnum
  | JStr string
  | JArr "jsval list"
  | JObj "(string \<times> jsval) list"

text \<open>What a JavaScript operation throws, and what the collaborators of the handler throw.\<close>

datatype error =
    TypeError
  | SyntaxError
  | RequestError
  | GenerationError
  | ArgumentValidationError
  | SchemaValidationError

text \<open>Sequencing of steps that may throw: the first exception ends the computation.\<close>

definition bindE :: "error + 'a \<Rightarrow> ('a \<Rightarrow> error + 'b) \<Rightarrow> error + 'b" where
  "bindE m f = (case m of Inl e \<Rightarrow> Inl e | Inr x \<Rightarrow> f x)"

text \<open>\<^verbatim>\<open>xs.map(f)\<close> on an array: the callback runs on the elements in order.\<close>

primrec mapE :: "('a \<Rightarrow> error + 'b) \<Rightarrow> 'a list \<Rightarrow> error + 'b list" where
  "mapE f [] = Inr []"
| "mapE f (x # xs) = bindE (f x) (\<lambda>y. bindE (mapE f xs) (\<lambda>ys. Inr (y # ys)))"

subsection \<open>ToBoolean and the operator \<^verbatim>\<open>||\<close>\<close>

fun truthy :: "jsval \<Rightarrow> bool" where
  "truthy JUndefined = False"
| "truthy JNull = False"
| "truthy (JBool b) = b"
| "truthy (JNum n) = (n \<noteq> NaN \<and> n \<noteq> Fin 0)"
| "truthy (JStr s) = (s \<noteq> [])"
| "truthy (JArr xs) = True"
| "truthy (JObj ps) = True"

text \<open>\<^verbatim>\<open>a || b\<close> with both operands already evaluated (the right operands in the code are
  literals).\<close>

definition or_else :: "jsval \<Rightarrow> jsval \<Rightarrow> jsval" where
  "or_else a b = (if truthy a then a else b)"

subsection \<open>Property access\<close>

text \<open>
  \<^verbatim>\<open>v.k\<close> for the property names the code reads (\<^verbatim>\<open>schedule\<close>, \<^verbatim>\<open>exercises\<close>,
  \<^verbatim>\<open>day\<close>, \<^verbatim>\<open>routines\<close>, \<^verbatim>\<open>name\<close>, \<^verbatim>\<open>sets\<close>, \<^verbatim>\<open>reps\<close>, \<^verbatim>\<open>duration\<close>,
  \<^verbatim>\<open>description\<close>, \<^verbatim>\<open>dailyCalories\<close>, \<^verbatim>\<open>meals\<close>, \<^verbatim>\<open>foods\<close>, \<^verbatim>\<open>protein\<close>, and the
  payload's fields), none of which a built-in prototype defines: reading from
  \<^verbatim>\<open>null\<close> or \<^verbatim>\<open>undefined\<close> throws a TypeError, an object gives its own property or
  \<^verbatim>\<open>undefined\<close>, every other value gives \<^verbatim>\<open>undefined\<close>.
\<close>

fun get :: "jsval \<Rightarrow> string \<Rightarrow> error + jsval" where
  "get JUndefined k = Inl TypeError"
| "get JNull k = Inl TypeError"
| "get (JObj ps) k = (case map_of ps k of Some v \<Rightarrow> Inr v | None \<Rightarrow> Inr JUndefined)"
| "get v k = Inr JUndefined"

text \<open>\<^verbatim>\<open>Array.isArray(v)\<close>.\<close>

fun isArray :: "jsval \<Rightarrow> bool" where
  "isArray (JArr xs) = True"
| "isArray v = False"

text \<open>
  \<^verbatim>\<open>v.map(f)\<close>: an array maps its elements; on any other value that is neither null nor
  undefined the property \<^verbatim>\<open>map\<close> is undefined or, on an object that came from JSON, not
  a function, so the call throws a TypeError; so does reading it from null or undefined.
\<close>

fun array_map :: "jsval \<Rightarrow> (jsval \<Rightarrow> error + jsval) \<Rightarrow> error + jsval" where
  "array_map (JArr xs) f = bindE (mapE f xs) (\<lambda>ys. Inr (JArr ys))"
| "array_map v f = Inl TypeError"

subsection \<open>Strings to numbers\<close>

text \<open>
  \<^verbatim>\<open>Number(s)\<close> on a string follows the grammar of a string numeric literal: white space
  around the literal is dropped and the empty string is \<^verbatim>\<open>0\<close>; a literal is
  \<^verbatim>\<open>0x\<close>, \<^verbatim>\<open>0o\<close> or \<^verbatim>\<open>0b\<close> followed by digits of that radix (without a sign), or an
  optionally signed \<^verbatim>\<open>Infinity\<close> or decimal literal with an optional fraction and an
  optional exponent; everything else is \<^verbatim>\<open>NaN\<close>. A literal whose value rounds to
  infinity or to zero in binary64 gives that; between these bounds the exact value stands
  for the number (the rounding of the 53-bit significand is not modelled).
\<close>

definition is_ws :: "char \<Rightarrow> bool" where
  "is_ws c = (c \<in> set [CHR 0x09, CHR 0x0A, CHR 0x0B, CHR 0x0C, CHR 0x0D, CHR 0x20, CHR 0xA0])"

definition trim :: "string \<Rightarrow> string" where
  "trim s = rev (dropWhile is_ws (rev (dropWhile is_ws s)))"

definition digit_value :: "char \<Rightarrow> nat option" where
  "digit_value c =
     (let n = (of_char c :: nat) in
      if 48 \<le> n \<and> n \<le> 57 then Some (n - 48)
      else if 97 \<le> n \<and> n \<le> 102 then Some (n - 87)
      else if 65 \<le> n \<and> n \<le> 70 then Some (n - 55)
      else None)"

definition is_digit :: "nat \<Rightarrow> char \<Rightarrow> bool" where
  "is_digit base c = (case digit_value c of Some d \<Rightarrow> d < base | None \<Rightarrow> False)"

definition digits_value :: "nat \<Rightarrow> string \<Rightarrow> nat" where
  "digits_value base s =
     foldl (\<lambda>a c. base * a + (case digit_value c of Some d \<Rightarrow> d | None \<Rightarrow> 0)) 0 s"

definition pow10 :: "int \<Rightarrow> rat" where
  "pow10 e = (if 0 \<le> e then 10 ^ nat e else 1 / 10 ^ nat (- e))"

definition in_range :: "rat \<Rightarrow> jsnum" where
  "in_range r =
     (if 2 ^ 1024 - 2 ^ 970 \<le> \<bar>r\<bar> then (if 0 < r then PosInfinity else NegInfinity)
      else if \<bar>r\<bar> \<le> 1 / 2 ^ 1075 then Fin 0
      else Fin r)"

definition strip_sign :: "string \<Rightarrow> bool \<times> string" where
  "strip_sign s =
     (case s of
        [] \<Rightarrow> (False, [])
      | c # t \<Rightarrow> if c = CHR ''-'' then (True, t) else if c = CHR ''+'' then (False, t) else (False, s))"

definition exponent_part :: "string \<Rightarrow> int option" where
  "exponent_part s =
     (case s of
        [] \<Rightarrow> Some 0
      | c # t \<Rightarrow>
          if c = CHR ''e'' \<or> c = CHR ''E'' then
            (case strip_sign t of (neg, ds) \<Rightarrow>
               if ds \<noteq> [] \<and> list_all (is_digit 10) ds
               then Some (if neg then - int (digits_value 10 ds) else int (digits_value 10 ds))
               else None)
          else None)"

definition unsigned_decimal :: "string \<Rightarrow> jsnum" where
  "unsigned_decimal s =
     (if s = ''Infinity'' then PosInfinity
      else
        let ip = takeWhile (is_digit 10) s;
            r1 = dropWhile (is_digit 10) s;
            dot = (r1 \<noteq> [] \<and> hd r1 = CHR ''.'');
            fp = (if dot then takeWhile (is_digit 10) (tl r1) else []);
            r2 = (if dot then dropWhile (is_digit 10) (tl r1) else r1)
        in if ip = [] \<and> fp = [] then NaN
           else case exponent_part r2 of
                  None \<Rightarrow> NaN
                | Some e \<Rightarrow> in_range (of_nat (digits_value 10 (ip @ fp)) * pow10 (e - int (length fp))))"

fun negate :: "jsnum \<Rightarrow> jsnum" where
  "negate NaN = NaN"
| "negate PosInfinity = NegInfinity"
| "negate NegInfinity = PosInfinity"
| "negate (Fin r) = Fin (- r)"

definition radix_literal :: "string \<Rightarrow> jsnum option" where
  "radix_literal s =
     (case s of
        z # c # ds \<Rightarrow>
          if z = CHR ''0'' \<and> ds \<noteq> [] then
            (if (c = CHR ''x'' \<or> c = CHR ''X'') \<and> list_all (is_digit 16) ds
               then Some (in_range (of_nat (digits_value 16 ds)))
             else if (c = CHR ''o'' \<or> c = CHR ''O'') \<and> list_all (is_digit 8) ds
               then Some (in_range (of_nat (digits_value 8 ds)))
             else if (c = CHR ''b'' \<or> c = CHR ''B'') \<and> list_all (is_digit 2) ds
               then Some (in_range (of_nat (digits_value 2 ds)))
             else None)
          else None
      | _ \<Rightarrow> None)"

definition StringToNumber :: "string \<Rightarrow> jsnum" where
  "StringToNumber str =
     (let s = trim str in
      if s = [] then Fin 0
      else case radix_literal s of
             Some n \<Rightarrow> n
           | None \<Rightarrow> (case strip_sign s of (neg, u) \<Rightarrow>
                        if neg then negate (unsigned_decimal u) else unsigned_decimal u))"

subsection \<open>Numbers to strings\<close>

text \<open>
  \<^verbatim>\<open>String(n)\<close> on a number: with \<open>s\<close> the decimal digits of the value without trailing
  zeros, \<open>k\<close> their count and \<open>n\<close> the position of the decimal point, the digits are
  written plainly when \<open>-6 < n \<le> 21\<close> and in exponent form otherwise. The fraction's
  digits come from long division, which ends for every value with a finite decimal
  expansion within as many steps as the denominator.
\<close>

definition digit_char :: "nat \<Rightarrow> char" where
  "digit_char d = ''0123456789'' ! d"

fun dec_digits :: "nat \<Rightarrow> string" where
  "dec_digits n = (if n < 10 then [digit_char n] else dec_digits (n div 10) @ [digit_char (n mod 10)])"

declare dec_digits.simps [simp del]

fun frac_digits :: "nat \<Rightarrow> nat \<Rightarrow> nat \<Rightarrow> string" where
  "frac_digits fuel a b =
     (if fuel = 0 \<or> a = 0 then []
      else digit_char ((10 * a) div b) # frac_digits (fuel - 1) ((10 * a) mod b) b)"

declare frac_digits.simps [simp del]

definition strip_zeros :: "string \<Rightarrow> string" where
  "strip_zeros s = rev (dropWhile (\<lambda>c. c = CHR ''0'') (rev s))"

definition exponent_form :: "string \<Rightarrow> int \<Rightarrow> string" where
  "exponent_form s n =
     (let e = n - 1;
          es = (if e < 0 then ''-'' else ''+'') @ dec_digits (nat \<bar>e\<bar>)
      in if length s = 1 then s @ ''e'' @ es else take 1 s @ ''.'' @ drop 1 s @ ''e'' @ es)"

definition format_digits :: "string \<Rightarrow> int \<Rightarrow> string" where
  "format_digits s n =
     (let k = int (length s) in
      if k \<le> n \<and> n \<le> 21 then s @ replicate (nat (n - k)) (CHR ''0'')
      else if 0 < n \<and> n \<le> 21 then take (nat n) s @ ''.'' @ drop (nat n) s
      else if - 6 < n \<and> n \<le> 0 then ''0.'' @ replicate (nat (- n)) (CHR ''0'') @ s
      else exponent_form s n)"

definition positive_to_string :: "rat \<Rightarrow> string" where
  "positive_to_string r =
     (case quotient_of r of (p, q) \<Rightarrow>
        let ip = nat (p div q);
            fs = frac_digits (nat q) (nat (p mod q)) (nat q)
        in if 0 < ip
           then format_digits (strip_zeros (dec_digits ip @ fs)) (int (length (dec_digits ip)))
           else format_digits (strip_zeros (dropWhile (\<lambda>c. c = CHR ''0'') fs))
                  (- int (length (takeWhile (\<lambda>c. c = CHR ''0'') fs))))"

fun NumberToString :: "jsnum \<Rightarrow> string" where
  "NumberToString NaN = ''NaN''"
| "NumberToString PosInfinity = ''Infinity''"
| "NumberToString NegInfinity = ''-Infinity''"
| "NumberToString (Fin r) =
     (if r = 0 then ''0''
      else if r < 0 then ''-'' @ positive_to_string (- r)
      else positive_to_string r)"

subsection \<open>ToString and ToNumber\<close>

text \<open>
  An array converts by joining its elements with commas, null and undefined elements
  giving the empty string. A plain object converts through \<^verbatim>\<open>Object.prototype.toString\<close>
  to \<^verbatim>\<open>[object Object]\<close>, unless it has an own property \<^verbatim>\<open>toString\<close>: a value from
  JSON is not callable, \<^verbatim>\<open>valueOf\<close> (own or inherited) gives no primitive either, and the
  conversion throws a TypeError. \<^verbatim>\<open>ToNumber\<close> of an array or object converts the same
  primitive string.
\<close>

fun ToString :: "jsval \<Rightarrow> error + string"
  and join :: "jsval list \<Rightarrow> error + string" where
  "ToString JUndefined = Inr ''undefined''"
| "ToString JNull = Inr ''null''"
| "ToString (JBool b) = Inr (if b then ''true'' else ''false'')"
| "ToString (JNum n) = Inr (NumberToString n)"
| "ToString (JStr s) = Inr s"
| "ToString (JArr xs) = join xs"
| "ToString (JObj ps) =
     (if map_of ps ''toString'' = None then Inr ''[object Object]'' else Inl TypeError)"
| "join [] = Inr []"
| "join (x # xs) =
     bindE (if x = JUndefined \<or> x = JNull then Inr [] else ToString x) (\<lambda>s.
       if xs = [] then Inr s else bindE (join xs) (\<lambda>r. Inr (s @ '','' @ r)))"

fun ToNumber :: "jsval \<Rightarrow> error + jsnum" where
  "ToNumber JUndefined = Inr NaN"
| "ToNumber JNull = Inr (Fin 0)"
| "ToNumber (JBool b) = Inr (Fin (if b then 1 else 0))"
| "ToNumber (JNum n) = Inr n"
| "ToNumber (JStr s) = Inr (StringToNumber s)"
| "ToNumber v = bindE (ToString v) (\<lambda>s. Inr (StringToNumber s))"

text \<open>The functions \<^verbatim>\<open>String(v)\<close> and \<^verbatim>\<open>Number(v)\<close>.\<close>

definition String :: "jsval \<Rightarrow> error + jsval" where
  "String v = bindE (ToString v) (\<lambda>s. Inr (JStr s))"

definition Number :: "jsval \<Rightarrow> error + jsval" where
  "Number v = bindE (ToNumber v) (\<lambda>n. Inr (JNum n))"

section \<open>The plan validators\<close>

text \<open>
  \<^verbatim>\<open>validateWorkoutPlan\<close> and \<^verbatim>\<open>validateDietPlan\<close> of \<^verbatim>\<open>convex/http.ts\<close>. The three
  arrow functions passed to \<^verbatim>\<open>map\<close> have no name in the source; they are called after
  their parameters \<^verbatim>\<open>r\<close>, \<^verbatim>\<open>ex\<close> and \<^verbatim>\<open>m\<close> here. Each object literal evaluates its
  properties in the order written.
\<close>

definition routine_entry :: "jsval \<Rightarrow> error + jsval" where
  "routine_entry r =
     bindE (get r ''name'') (\<lambda>n.
     bindE (String (or_else n (JStr ''Unnamed Routine''))) (\<lambda>name.
     bindE (get r ''sets'') (\<lambda>s.
     bindE (Number s) (\<lambda>sets.
     bindE (get r ''reps'') (\<lambda>p.
     bindE (Number p) (\<lambda>reps.
     bindE (get r ''duration'') (\<lambda>d.
     bindE (Number d) (\<lambda>duration.
     bindE (get r ''description'') (\<lambda>t.
     bindE (String (or_else t (JStr ''No description''))) (\<lambda>description.
     Inr (JObj [(''name'', name),
                (''sets'', or_else sets (JNum (Fin 1))),
                (''reps'', or_else reps (JNum (Fin 10))),
                (''duration'', or_else duration (JNum (Fin 15))),
                (''description'', description)])))))))))))"

definition exercise_entry :: "jsval \<Rightarrow> error + jsval" where
  "exercise_entry ex =
     bindE (get ex ''day'') (\<lambda>d.
     bindE (String (or_else d (JStr ''Unknown''))) (\<lambda>day.
     bindE (get ex ''routines'') (\<lambda>rs.
     bindE (array_map (or_else rs (JArr [])) routine_entry) (\<lambda>routines.
     Inr (JObj [(''day'', day), (''routines'', routines)])))))"

definition validateWorkoutPlan :: "jsval \<Rightarrow> error + jsval" where
  "validateWorkoutPlan plan =
     bindE (get plan ''schedule'') (\<lambda>s.
     bindE (get plan ''exercises'') (\<lambda>es.
     bindE (array_map (or_else es (JArr [])) exercise_entry) (\<lambda>exercises.
     Inr (JObj [(''schedule'', if isArray s then s else JArr []),
                (''exercises'', exercises)]))))"

definition meal_entry :: "jsval \<Rightarrow> error + jsval" where
  "meal_entry m =
     bindE (get m ''name'') (\<lambda>n.
     bindE (String (or_else n (JStr ''Unnamed Meal''))) (\<lambda>name.
     bindE (get m ''foods'') (\<lambda>fs.
     bindE (if isArray fs then array_map fs String else Inr (JArr [])) (\<lambda>foods.
     bindE (get m ''protein'') (\<lambda>ps.
     bindE (if isArray ps then array_map ps Number else Inr (JArr [])) (\<lambda>protein.
     Inr (JObj [(''name'', name), (''foods'', foods), (''protein'', protein)])))))))"

definition validateDietPlan :: "jsval \<Rightarrow> error + jsval" where
  "validateDietPlan plan =
     bindE (get plan ''dailyCalories'') (\<lambda>c.
     bindE (Number c) (\<lambda>calories.
     bindE (get plan ''meals'') (\<lambda>ms.
     bindE (array_map (or_else ms (JArr [])) meal_entry) (\<lambda>meals.
     Inr (JObj [(''dailyCalories'', or_else calories (JNum (Fin 2000))),
                (''meals'', meals)])))))"


section \<open>The database\<close>

text \<open>
  The Convex database of \<^verbatim>\<open>convex/schema.ts\<close>: two tables, \<^verbatim>\<open>users\<close> and \<^verbatim>\<open>plans\<close>.
  A table is the list of its documents in creation order, each with the \<^verbatim>\<open>_id\<close> the system
  gave it. Mutations run as serialised transactions, so a mutation is a function on the
  database, and one that throws leaves it as it was.
\<close>

type_synonym id = nat

type_synonym 'a table = "(id \<times> 'a) list"

record user =
  clerkId :: string
  email :: string
  name :: string
  image :: "string option"

record plan =
  userId :: jsval
  name :: string
  workoutPlan :: jsval
  dietPlan :: jsval
  isActive :: bool

record database =
  users :: "user table"
  plans :: "plan table"
  next_id :: id

text \<open>The validators \<^verbatim>\<open>v.string()\<close>, \<^verbatim>\<open>v.number()\<close>, \<^verbatim>\<open>v.array(t)\<close>, \<^verbatim>\<open>v.object({...})\<close> and
  \<^verbatim>\<open>v.optional(t)\<close> as the schema uses them. An object conforms when each of its properties
  is declared and conforms, and each declared property that is not optional is there
  (a property holding \<^verbatim>\<open>undefined\<close> counts as absent).\<close>

datatype validator =
    v_string
  | v_number
  | v_array validator
  | v_object "(string \<times> bool \<times> validator) list"

definition v_required :: "validator \<Rightarrow> bool \<times> validator" where
  "v_required t = (False, t)"

definition v_optional :: "validator \<Rightarrow> bool \<times> validator" where
  "v_optional t = (True, t)"

fun conforms :: "validator \<Rightarrow> jsval \<Rightarrow> bool" where
  "conforms v_string v = (case v of JStr s \<Rightarrow> True | _ \<Rightarrow> False)"
| "conforms v_number v = (case v of JNum n \<Rightarrow> True | _ \<Rightarrow> False)"
| "conforms (v_array t) v = (case v of JArr xs \<Rightarrow> list_all (conforms t) xs | _ \<Rightarrow> False)"
| "conforms (v_object fs) v =
     (case v of
        JObj ps \<Rightarrow>
          list_all (\<lambda>k. k \<in> set (map fst fs)) (map fst ps) \<and>
          list_all (\<lambda>(k, opt, t). case map_of ps k of
                                      None \<Rightarrow> opt
                                    | Some JUndefined \<Rightarrow> opt
                                    | Some x \<Rightarrow> conforms t x) fs
      | _ \<Rightarrow> False)"

text \<open>The validators of the \<^verbatim>\<open>plans\<close> table for \<^verbatim>\<open>workoutPlan\<close> and \<^verbatim>\<open>dietPlan\<close>.\<close>

definition workoutPlan_validator :: validator where
  "workoutPlan_validator =
     v_object
       [(''schedule'', v_required (v_array v_string)),
        (''exercises'', v_required (v_array (v_object
           [(''day'', v_required v_string),
            (''routines'', v_required (v_array (v_object
               [(''name'', v_required v_string),
                (''sets'', v_optional v_number),
                (''reps'', v_optional v_number),
                (''duration'', v_optional v_number),
                (''description'', v_optional v_string),
                (''exercises'', v_optional (v_array v_string))])))])))]"

definition dietPlan_validator :: validator where
  "dietPlan_validator =
     v_object
       [(''dailyCalories'', v_required v_number),
        (''meals'', v_required (v_array (v_object
           [(''name'', v_required v_string),
            (''foods'', v_required (v_array v_string)),
            (''protein'', v_required (v_array v_number))])))]"

text \<open>
  A document of \<^verbatim>\<open>plans\<close> conforms to the table's schema; \<^verbatim>\<open>name\<close> and \<^verbatim>\<open>isActive\<close> are a
  string and a boolean by their types here.
\<close>

definition plan_conforms :: "plan \<Rightarrow> bool" where
  "plan_conforms p =
     (conforms v_string (userId p) \<and>
      conforms workoutPlan_validator (workoutPlan p) \<and>
      conforms dietPlan_validator (dietPlan p))"

subsection \<open>\<^verbatim>\<open>syncUser\<close> of \<^verbatim>\<open>convex/users.ts\<close>\<close>

text \<open>
  The arguments are the fields of a \<^verbatim>\<open>users\<close> document, and conform to the table's schema
  by their types. \<^verbatim>\<open>.filter(...).first()\<close> is the first document of the table with the
  \<^verbatim>\<open>clerkId\<close>, or null; a document is truthy.
\<close>

definition syncUser :: "user \<Rightarrow> database \<Rightarrow> database" where
  "syncUser args db =
     (let existingUser = find (\<lambda>(i, u). clerkId u = clerkId args) (users db) in
      case existingUser of
        Some u \<Rightarrow> db
      | None \<Rightarrow>
          db\<lparr>users := users db @
                 [(next_id db,
                   \<lparr>clerkId = clerkId args, email = email args,
                    name = user.name args, image = image args\<rparr>)],
             next_id := next_id db + 1\<rparr>)"

subsection \<open>\<^verbatim>\<open>createPlan\<close> of \<^verbatim>\<open>convex/plans.ts\<close>\<close>

text \<open>
  Convex checks the arguments against the declared validators before the handler runs, and
  the inserted document against the table's schema. The source leaves the structure of the
  argument validators of \<^verbatim>\<open>workoutPlan\<close> and \<^verbatim>\<open>dietPlan\<close> out; the table's validators
  stand for them. The handler inserts the document and returns its id.
\<close>

definition createPlan :: "plan \<Rightarrow> database \<Rightarrow> error + (id \<times> database)" where
  "createPlan args db =
     (if \<not> plan_conforms args then Inl ArgumentValidationError
      else
        let doc = \<lparr>userId = userId args, name = plan.name args,
                   workoutPlan = workoutPlan args, dietPlan = dietPlan args,
                   isActive = isActive args\<rparr>
        in if \<not> plan_conforms doc then Inl SchemaValidationError
           else Inr (next_id db,
                     db\<lparr>plans := plans db @ [(next_id db, doc)], next_id := next_id db + 1\<rparr>))"


section \<open>The generation handler\<close>

text \<open>
  The handler of the route \<^verbatim>\<open>/vapi/generate-program\<close> in \<^verbatim>\<open>convex/http.ts\<close>. Its
  collaborators are parameters: the body of the request as \<^verbatim>\<open>request.json()\<close> gives it, the
  generative model (a call of \<^verbatim>\<open>generateContent\<close> throws or gives a result, whose
  \<^verbatim>\<open>response.text()\<close> throws or gives the text) and \<^verbatim>\<open>JSON.parse\<close>.
  The backend holds the database and, for the record, the calls of the mutation
  \<^verbatim>\<open>createPlan\<close> made through \<^verbatim>\<open>ctx.runMutation\<close>. Obtaining the model object with
  \<^verbatim>\<open>getGenerativeModel\<close> and writing to the console have no outcome of their own here.
\<close>

type_synonym generation = "error + string"

record env =
  request_json :: "error + jsval"
  generateContent :: "string \<Rightarrow> error + generation"
  JSON_parse :: "string \<Rightarrow> error + jsval"

record backend =
  db :: database
  createPlan_calls :: "plan list"

record response =
  status :: nat
  success :: bool
  planId :: "id option"

definition runMutation_createPlan :: "plan \<Rightarrow> backend \<Rightarrow> (error + id) \<times> backend" where
  "runMutation_createPlan args b =
     (case createPlan args (db b) of
        Inl e \<Rightarrow> (Inl e, b\<lparr>createPlan_calls := createPlan_calls b @ [args]\<rparr>)
      | Inr (i, db') \<Rightarrow> (Inr i, \<lparr>db = db', createPlan_calls = createPlan_calls b @ [args]\<rparr>))"

text \<open>The two template literals. A substitution converts its value with ToString.\<close>

definition quoted :: "string \<Rightarrow> string" where
  "quoted s = CHR 0x22 # s @ [CHR 0x22]"

definition newline :: string where
  "newline = [CHR 0x0A]"

definition workoutPrompt :: "jsval \<Rightarrow> jsval \<Rightarrow> jsval \<Rightarrow> error + string" where
  "workoutPrompt age fitness_goal weight =
     bindE (ToString age) (\<lambda>a.
     bindE (ToString fitness_goal) (\<lambda>g.
     bindE (ToString weight) (\<lambda>w.
     Inr (''Create a workout plan for a '' @ a @ ''-year-old aiming for '' @ g @ ''.'' @ newline @
          ''        Weight: '' @ w @ ''. Return ONLY JSON:'' @ newline @
          ''        { '' @ quoted ''schedule'' @ '': ['' @ quoted ''Day1'' @ '', '' @ quoted ''Day2'' @
          ''], '' @ quoted ''exercises'' @ '': [{'' @ quoted ''day'' @ '': '' @ quoted ''Day1'' @
          '', '' @ quoted ''routines'' @ '': [{'' @ quoted ''name'' @ '': '' @ quoted ''Squats'' @
          '', '' @ quoted ''sets'' @ '': 3, '' @ quoted ''reps'' @ '': 10, '' @ quoted ''duration'' @
          '': 5, '' @ quoted ''description'' @ '': '' @ quoted ''...'' @ ''}]}] }''))))"

definition dietPrompt :: "jsval \<Rightarrow> error + string" where
  "dietPrompt fitness_goal =
     bindE (ToString fitness_goal) (\<lambda>g.
     Inr (''Create a diet plan for '' @ g @ ''.'' @ newline @
          ''        Return ONLY JSON:'' @ newline @
          ''        { '' @ quoted ''dailyCalories'' @ '': 2000, '' @ quoted ''meals'' @ '': [{'' @
          quoted ''name'' @ '': '' @ quoted ''Breakfast'' @ '', '' @ quoted ''foods'' @ '': ['' @
          quoted ''Eggs'' @ ''], '' @ quoted ''protein'' @ '': [12]}] }''))"

text \<open>
  The body of the \<^verbatim>\<open>try\<close> block up to the arguments of the mutation: the payload and its
  fields, the prompts, the two calls of the model, and for each answer its text, its parse
  and its validation; last the plan's name.
\<close>

definition plan_args :: "env \<Rightarrow> error + plan" where
  "plan_args env =
     bindE (request_json env) (\<lambda>payload.
     bindE (get payload ''user_id'') (\<lambda>user_id.
     bindE (get payload ''age'') (\<lambda>age.
     bindE (get payload ''weight'') (\<lambda>weight.
     bindE (get payload ''fitness_goal'') (\<lambda>fitness_goal.
     bindE (workoutPrompt age fitness_goal weight) (\<lambda>wp.
     bindE (dietPrompt fitness_goal) (\<lambda>dp.
     bindE (generateContent env wp) (\<lambda>workoutResult.
     bindE (generateContent env dp) (\<lambda>dietResult.
     bindE workoutResult (\<lambda>wtext.
     bindE (JSON_parse env wtext) (\<lambda>wjson.
     bindE (validateWorkoutPlan wjson) (\<lambda>wplan.
     bindE dietResult (\<lambda>dtext.
     bindE (JSON_parse env dtext) (\<lambda>djson.
     bindE (validateDietPlan djson) (\<lambda>dplan.
     bindE (ToString fitness_goal) (\<lambda>g.
     Inr \<lparr>userId = user_id, name = g @ '' Plan'', workoutPlan = wplan,
          dietPlan = dplan, isActive = True\<rparr>))))))))))))))))"

text \<open>The handler: the \<^verbatim>\<open>try\<close> block ends with the mutation and the response 200; the
  \<^verbatim>\<open>catch\<close> block answers every exception with the response 500.\<close>

definition handler :: "env \<Rightarrow> backend \<Rightarrow> response \<times> backend" where
  "handler env b =
     (case plan_args env of
        Inl e \<Rightarrow> (\<lparr>status = 500, success = False, planId = None\<rparr>, b)
      | Inr args \<Rightarrow>
          (case runMutation_createPlan args b of
             (Inl e, b') \<Rightarrow> (\<lparr>status = 500, success = False, planId = None\<rparr>, b')
           | (Inr i, b') \<Rightarrow> (\<lparr>status = 200, success = True, planId = Some i\<rparr>, b')))"


section \<open>Vocabulary of the properties\<close>

text \<open>Reading a validated or raw structure: the own property of an object (undefined when
  absent or when the value is no object), the elements of an array (none when the value is
  no array) and the element at an index.\<close>

fun property :: "jsval \<Rightarrow> string \<Rightarrow> jsval" where
  "property (JObj ps) k = (case map_of ps k of Some v \<Rightarrow> v | None \<Rightarrow> JUndefined)"
| "property v k = JUndefined"

fun elems :: "jsval \<Rightarrow> jsval list" where
  "elems (JArr xs) = xs"
| "elems v = []"

definition item :: "jsval \<Rightarrow> nat \<Rightarrow> jsval" where
  "item v i = (if i < length (elems v) then elems v ! i else JUndefined)"

definition exercise_at :: "jsval \<Rightarrow> nat \<Rightarrow> jsval" where
  "exercise_at plan i = item (property plan ''exercises'') i"

definition routine_at :: "jsval \<Rightarrow> nat \<Rightarrow> nat \<Rightarrow> jsval" where
  "routine_at plan i j = item (property (exercise_at plan i) ''routines'') j"

definition meal_at :: "jsval \<Rightarrow> nat \<Rightarrow> jsval" where
  "meal_at plan i = item (property plan ''meals'') i"

text \<open>The number of exercise entries, of routines of the entry \<open>i\<close>, and of meals.\<close>

definition exercise_count :: "jsval \<Rightarrow> nat" where
  "exercise_count plan = length (elems (property plan ''exercises''))"

definition routine_count :: "jsval \<Rightarrow> nat \<Rightarrow> nat" where
  "routine_count plan i = length (elems (property (exercise_at plan i) ''routines''))"

definition meal_count :: "jsval \<Rightarrow> nat" where
  "meal_count plan = length (elems (property plan ''meals''))"

subsection \<open>The field types of the data model\<close>

fun is_string :: "jsval \<Rightarrow> bool" where
  "is_string (JStr s) = True"
| "is_string v = False"

text \<open>A genuine number: of type number and not \<^verbatim>\<open>NaN\<close>.\<close>

fun is_number :: "jsval \<Rightarrow> bool" where
  "is_number (JNum n) = (n \<noteq> NaN)"
| "is_number v = False"

definition is_Routine :: "jsval \<Rightarrow> bool" where
  "is_Routine r =
     (is_string (property r ''name'') \<and>
      is_number (property r ''sets'') \<and>
      is_number (property r ''reps'') \<and>
      is_number (property r ''duration'') \<and>
      is_string (property r ''description''))"

definition is_Exercise :: "jsval \<Rightarrow> bool" where
  "is_Exercise e =
     (is_string (property e ''day'') \<and>
      isArray (property e ''routines'') \<and>
      list_all is_Routine (elems (property e ''routines'')))"

definition is_WorkoutPlan :: "jsval \<Rightarrow> bool" where
  "is_WorkoutPlan p =
     (isArray (property p ''schedule'') \<and>
      isArray (property p ''exercises'') \<and>
      list_all is_Exercise (elems (property p ''exercises'')))"

text \<open>A positive integer, as the data model words \<^verbatim>\<open>dailyCalories\<close>.\<close>

fun positive_integer :: "jsval \<Rightarrow> bool" where
  "positive_integer (JNum (Fin r)) = (0 < r \<and> r = of_int \<lfloor>r\<rfloor>)"
| "positive_integer v = False"

subsection \<open>Inputs on which the validators return\<close>

text \<open>
  A value converts to a string and to a number without an exception when no object met by
  the conversion has an own property \<^verbatim>\<open>toString\<close>. A value is present when it is neither
  null nor undefined. A list property is well formed when it is falsy (then the empty
  array stands for it) or an array whose entries are well formed.
\<close>

fun plain :: "jsval \<Rightarrow> bool" where
  "plain (JObj ps) = (map_of ps ''toString'' = None)"
| "plain (JArr xs) = list_all plain xs"
| "plain v = True"

definition present :: "jsval \<Rightarrow> bool" where
  "present v = (v \<noteq> JNull \<and> v \<noteq> JUndefined)"

definition entries :: "(jsval \<Rightarrow> bool) \<Rightarrow> jsval \<Rightarrow> bool" where
  "entries P v = (if truthy v then isArray v \<and> list_all P (elems v) else True)"

definition routine_shaped :: "jsval \<Rightarrow> bool" where
  "routine_shaped r =
     (present r \<and> plain (property r ''name'') \<and> plain (property r ''sets'') \<and>
      plain (property r ''reps'') \<and> plain (property r ''duration'') \<and>
      plain (property r ''description''))"

definition exercise_shaped :: "jsval \<Rightarrow> bool" where
  "exercise_shaped ex =
     (present ex \<and> plain (property ex ''day'') \<and>
      entries routine_shaped (property ex ''routines''))"

definition workout_shaped :: "jsval \<Rightarrow> bool" where
  "workout_shaped plan = (present plan \<and> entries exercise_shaped (property plan ''exercises''))"

text \<open>The coercion of a numeric field: the converted number, or the default when the
  conversion gives \<^verbatim>\<open>NaN\<close> or zero.\<close>

definition number_or :: "jsnum \<Rightarrow> rat \<Rightarrow> jsval" where
  "number_or n d = JNum (if n = NaN \<or> n = Fin 0 then Fin d else n)"

text \<open>The strings of a validated plan that the second validation would replace: an empty
  \<^verbatim>\<open>day\<close>, \<^verbatim>\<open>name\<close> or \<^verbatim>\<open>description\<close>.\<close>

definition named :: "jsval \<Rightarrow> string \<Rightarrow> bool" where
  "named v k = (property v k \<noteq> JStr [])"

definition routine_named :: "jsval \<Rightarrow> bool" where
  "routine_named r = (named r ''name'' \<and> named r ''description'')"

definition exercise_named :: "jsval \<Rightarrow> bool" where
  "exercise_named e =
     (named e ''day'' \<and> list_all routine_named (elems (property e ''routines'')))"

definition workout_named :: "jsval \<Rightarrow> bool" where
  "workout_named p = list_all exercise_named (elems (property p ''exercises''))"

definition meal_named :: "jsval \<Rightarrow> bool" where
  "meal_named m = named m ''name''"

definition diet_named :: "jsval \<Rightarrow> bool" where
  "diet_named p = list_all meal_named (elems (property p ''meals''))"

text \<open>The number of documents of \<^verbatim>\<open>users\<close> with a \<^verbatim>\<open>clerkId\<close>.\<close>

definition clerk_count :: "string \<Rightarrow> database \<Rightarrow> nat" where
  "clerk_count c d = length (filter (\<lambda>(i, u). clerkId u = c) (users d))"

subsection \<open>Outcomes of the handler's steps\<close>

text \<open>
  The generation for a prompt fails when the call of the model throws, when the text of its
  answer cannot be read, or when \<^verbatim>\<open>JSON.parse\<close> throws on that text.
\<close>

definition generation_fails :: "env \<Rightarrow> string \<Rightarrow> bool" where
  "generation_fails env prompt =
     (case generateContent env prompt of
        Inl e \<Rightarrow> True
      | Inr (Inl e) \<Rightarrow> True
      | Inr (Inr text) \<Rightarrow> (case JSON_parse env text of Inl e \<Rightarrow> True | Inr v \<Rightarrow> False))"

text \<open>The two responses of the handler.\<close>

definition failure :: response where
  "failure = \<lparr>status = 500, success = False, planId = None\<rparr>"

definition created :: "id \<Rightarrow> response" where
  "created i = \<lparr>status = 200, success = True, planId = Some i\<rparr>"

subsection \<open>A request and two models\<close>

text \<open>
  The intake \<^verbatim>\<open>{ user_id: "u1", fitness_goal: "build muscle", age: 30 }\<close> with the two
  prompts the templates make of it, a model that answers the workout prompt with \<^verbatim>\<open>{}\<close> and
  throws on every other prompt, a model that answers every prompt with \<^verbatim>\<open>{}\<close>, a parser
  that knows the text \<^verbatim>\<open>{}\<close>, and a backend with one plan stored.
\<close>

definition intake :: jsval where
  "intake =
     JObj [(''user_id'', JStr ''u1''), (''fitness_goal'', JStr ''build muscle''),
           (''age'', JNum (Fin 30))]"

definition intake_workoutPrompt :: string where
  "intake_workoutPrompt =
     ''Create a workout plan for a 30-year-old aiming for build muscle.'' @ newline @
     ''        Weight: undefined. Return ONLY JSON:'' @ newline @
     ''        { '' @ quoted ''schedule'' @ '': ['' @ quoted ''Day1'' @ '', '' @ quoted ''Day2'' @
     ''], '' @ quoted ''exercises'' @ '': [{'' @ quoted ''day'' @ '': '' @ quoted ''Day1'' @
     '', '' @ quoted ''routines'' @ '': [{'' @ quoted ''name'' @ '': '' @ quoted ''Squats'' @
     '', '' @ quoted ''sets'' @ '': 3, '' @ quoted ''reps'' @ '': 10, '' @ quoted ''duration'' @
     '': 5, '' @ quoted ''description'' @ '': '' @ quoted ''...'' @ ''}]}] }''"

definition intake_dietPrompt :: string where
  "intake_dietPrompt =
     ''Create a diet plan for build muscle.'' @ newline @
     ''        Return ONLY JSON:'' @ newline @
     ''        { '' @ quoted ''dailyCalories'' @ '': 2000, '' @ quoted ''meals'' @ '': [{'' @
     quoted ''name'' @ '': '' @ quoted ''Breakfast'' @ '', '' @ quoted ''foods'' @ '': ['' @
     quoted ''Eggs'' @ ''], '' @ quoted ''protein'' @ '': [12]}] }''"

definition parse_braces :: "string \<Rightarrow> error + jsval" where
  "parse_braces s = (if s = ''{}'' then Inr (JObj []) else Inl SyntaxError)"

definition diet_call_throws :: env where
  "diet_call_throws =
     \<lparr>request_json = Inr intake,
      generateContent =
        (\<lambda>p. if p = intake_workoutPrompt then Inr (Inr ''{}'') else Inl GenerationError),
      JSON_parse = parse_braces\<rparr>"

definition both_calls_answer :: env where
  "both_calls_answer =
     \<lparr>request_json = Inr intake,
      generateContent = (\<lambda>p. Inr (Inr ''{}'')),
      JSON_parse = parse_braces\<rparr>"

definition earlier_plan :: plan where
  "earlier_plan =
     \<lparr>userId = JStr ''u1'', name = ''lose weight Plan'',
      workoutPlan = JObj [(''schedule'', JArr []), (''exercises'', JArr [])],
      dietPlan = JObj [(''dailyCalories'', JNum (Fin 1800)), (''meals'', JArr [])],
      isActive = True\<rparr>"

definition one_plan_stored :: backend where
  "one_plan_stored =
     \<lparr>db = \<lparr>users = [], plans = [(0, earlier_plan)], next_id = 1\<rparr>,
      createPlan_calls = [earlier_plan]\<rparr>"

definition intake_plan :: plan where
  "intake_plan =
     \<lparr>userId = JStr ''u1'', name = ''build muscle Plan'',
      workoutPlan = JObj [(''schedule'', JArr []), (''exercises'', JArr [])],
      dietPlan = JObj [(''dailyCalories'', JNum (Fin 2000)), (''meals'', JArr [])],
      isActive = True\<rparr>"


section \<open>When the validators return, and what\<close>

text \<open>Each validator returns exactly on the inputs on which no step throws; the result is
  then the object literal of the source, built from the converted properties.\<close>

lemma bindE_Inl [simp]: "bindE (Inl e) f = Inl e"
  by (simp add: bindE_def)

lemma bindE_Inr [simp]: "bindE (Inr x) f = f x"
  by (simp add: bindE_def)

lemma bindE_eq_Inr: "bindE m f = Inr y \<longleftrightarrow> (\<exists>x. m = Inr x \<and> f x = Inr y)"
  by (cases m) simp_all

lemma mapE_eq_Inr: "mapE f xs = Inr ys \<longleftrightarrow> list_all2 (\<lambda>x y. f x = Inr y) xs ys"
proof (induction xs arbitrary: ys)
  case Nil
  show ?case by auto
next
  case (Cons x xs)
  show ?case
    by (cases ys) (auto simp: bindE_eq_Inr Cons.IH)
qed

lemma get_eq_Inr: "get v k = Inr x \<longleftrightarrow> present v \<and> x = property v k"
  by (cases v) (auto simp: present_def split: option.splits)

lemma String_eq_Inr: "String v = Inr x \<longleftrightarrow> (\<exists>s. ToString v = Inr s \<and> x = JStr s)"
  by (auto simp: String_def bindE_eq_Inr)

lemma Number_eq_Inr: "Number v = Inr x \<longleftrightarrow> (\<exists>n. ToNumber v = Inr n \<and> x = JNum n)"
  by (auto simp: Number_def bindE_eq_Inr)

lemma or_else_number: "or_else (JNum n) (JNum (Fin d)) = number_or n d"
  by (simp add: or_else_def number_or_def)



lemma array_map_eq_Inr:
  "array_map v f = Inr out \<longleftrightarrow>
     isArray v \<and> (\<exists>ys. out = JArr ys \<and> list_all2 (\<lambda>x y. f x = Inr y) (elems v) ys)"
  apply (cases v)
  apply (simp_all add: bindE_eq_Inr mapE_eq_Inr)
  apply auto
  done


lemma falsy_elems: "\<not> truthy v \<Longrightarrow> elems v = [] \<and> \<not> isArray v"
  by (cases v) simp_all

lemma array_map_or_else_eq_Inr:
  "array_map (or_else v (JArr [])) f = Inr out \<longleftrightarrow>
     (truthy v \<longrightarrow> isArray v) \<and>
     (\<exists>ys. out = JArr ys \<and> list_all2 (\<lambda>x y. f x = Inr y) (elems v) ys)"
proof (cases "truthy v")
  case True
  then show ?thesis
    by (simp add: or_else_def array_map_eq_Inr)
next
  case False
  then show ?thesis
    using falsy_elems [OF False] by (auto simp: or_else_def)
qed

lemma routine_entry_eq_Inr:
  "routine_entry r = Inr out \<longleftrightarrow>
     present r \<and>
     (\<exists>name s p d desc.
        ToString (or_else (property r ''name'') (JStr ''Unnamed Routine'')) = Inr name \<and>
        ToNumber (property r ''sets'') = Inr s \<and>
        ToNumber (property r ''reps'') = Inr p \<and>
        ToNumber (property r ''duration'') = Inr d \<and>
        ToString (or_else (property r ''description'') (JStr ''No description'')) = Inr desc \<and>
        out = JObj [(''name'', JStr name), (''sets'', number_or s 1), (''reps'', number_or p 10),
                    (''duration'', number_or d 15), (''description'', JStr desc)])"
  unfolding routine_entry_def bindE_eq_Inr get_eq_Inr String_eq_Inr Number_eq_Inr
  by (auto simp: or_else_number)

lemma exercise_entry_eq_Inr:
  "exercise_entry ex = Inr out \<longleftrightarrow>
     present ex \<and>
     (truthy (property ex ''routines'') \<longrightarrow> isArray (property ex ''routines'')) \<and>
     (\<exists>day rs.
        ToString (or_else (property ex ''day'') (JStr ''Unknown'')) = Inr day \<and>
        list_all2 (\<lambda>x y. routine_entry x = Inr y) (elems (property ex ''routines'')) rs \<and>
        out = JObj [(''day'', JStr day), (''routines'', JArr rs)])"
  unfolding exercise_entry_def bindE_eq_Inr get_eq_Inr String_eq_Inr array_map_or_else_eq_Inr
  by auto

lemma validateWorkoutPlan_eq_Inr:
  "validateWorkoutPlan plan = Inr out \<longleftrightarrow>
     present plan \<and>
     (truthy (property plan ''exercises'') \<longrightarrow> isArray (property plan ''exercises'')) \<and>
     (\<exists>es.
        list_all2 (\<lambda>x y. exercise_entry x = Inr y) (elems (property plan ''exercises'')) es \<and>
        out = JObj [(''schedule'', if isArray (property plan ''schedule'')
                                   then property plan ''schedule'' else JArr []),
                    (''exercises'', JArr es)])"
  unfolding validateWorkoutPlan_def bindE_eq_Inr get_eq_Inr array_map_or_else_eq_Inr
  by auto

lemma meal_list_eq_Inr:
  "(if isArray v then array_map v f else Inr (JArr [])) = Inr out \<longleftrightarrow>
     (\<exists>ys. out = JArr ys \<and> list_all2 (\<lambda>x y. f x = Inr y) (elems v) ys)"
proof (cases "isArray v")
  case True
  then show ?thesis by (simp add: array_map_eq_Inr)
next
  case False
  then have "elems v = []" by (cases v) simp_all
  with False show ?thesis by auto
qed

lemma meal_entry_eq_Inr:
  "meal_entry m = Inr out \<longleftrightarrow>
     present m \<and>
     (\<exists>name fs ps.
        ToString (or_else (property m ''name'') (JStr ''Unnamed Meal'')) = Inr name \<and>
        list_all2 (\<lambda>x y. String x = Inr y) (elems (property m ''foods'')) fs \<and>
        list_all2 (\<lambda>x y. Number x = Inr y) (elems (property m ''protein'')) ps \<and>
        out = JObj [(''name'', JStr name), (''foods'', JArr fs), (''protein'', JArr ps)])"
  unfolding meal_entry_def bindE_eq_Inr get_eq_Inr String_eq_Inr meal_list_eq_Inr
  by auto

lemma validateDietPlan_eq_Inr:
  "validateDietPlan plan = Inr out \<longleftrightarrow>
     present plan \<and>
     (truthy (property plan ''meals'') \<longrightarrow> isArray (property plan ''meals'')) \<and>
     (\<exists>c ms.
        ToNumber (property plan ''dailyCalories'') = Inr c \<and>
        list_all2 (\<lambda>x y. meal_entry x = Inr y) (elems (property plan ''meals'')) ms \<and>
        out = JObj [(''dailyCalories'', number_or c 2000), (''meals'', JArr ms)])"
  unfolding validateDietPlan_def bindE_eq_Inr get_eq_Inr Number_eq_Inr array_map_or_else_eq_Inr
  by (auto simp: or_else_number)

section \<open>Evaluation\<close>

text \<open>The equations that evaluate the conversions and the validators on a given input.\<close>

lemmas number_eval =
  StringToNumber_def trim_def is_ws_def radix_literal_def strip_sign_def unsigned_decimal_def
  is_digit_def digit_value_def exponent_part_def digits_value_def in_range_def pow10_def

lemmas validator_eval =
  validateWorkoutPlan_def exercise_entry_def routine_entry_def validateDietPlan_def
  meal_entry_def String_def Number_def or_else_def

section \<open>The validators on the plan of the specification\<close>

text \<open>
  C8: \<^verbatim>\<open>validateWorkoutPlan\<close> applied to
  \<^verbatim>\<open>{ exercises: [{ day: "Monday", routines: [{ name: "Squats" }] }] }\<close> returns a plan whose
  single routine has sets 1, reps 10, duration 15 and the description \<^verbatim>\<open>No description\<close>,
  with the day \<^verbatim>\<open>Monday\<close> and the name \<^verbatim>\<open>Squats\<close> kept (and an empty schedule).
\<close>

theorem defaults_for_omitted_routine_fields:
  "validateWorkoutPlan
     (JObj [(''exercises'',
             JArr [JObj [(''day'', JStr ''Monday''),
                         (''routines'', JArr [JObj [(''name'', JStr ''Squats'')]])]])]) =
   Inr (JObj [(''schedule'', JArr []),
              (''exercises'',
               JArr [JObj [(''day'', JStr ''Monday''),
                           (''routines'',
                            JArr [JObj [(''name'', JStr ''Squats''),
                                        (''sets'', JNum (Fin 1)),
                                        (''reps'', JNum (Fin 10)),
                                        (''duration'', JNum (Fin 15)),
                                        (''description'', JStr ''No description'')]])]])])"
  by (simp add: validator_eval)

section \<open>Entries of a plan and of its validation\<close>

text \<open>The validated plan has, at each position, the validation of the raw entry at that
  position.\<close>

lemma list_all2_item:
  assumes "list_all2 R (elems a) ys" and "i < length (elems a)"
  shows "R (item a i) (item (JArr ys) i)"
  using assms by (simp add: item_def list_all2_lengthD list_all2_nthD)

lemma workout_exercise_at:
  assumes "validateWorkoutPlan plan = Inr out" and "i < exercise_count plan"
  shows "exercise_entry (exercise_at plan i) = Inr (exercise_at out i)"
proof -
  from assms(1) obtain es where
    es: "list_all2 (\<lambda>x y. exercise_entry x = Inr y) (elems (property plan ''exercises'')) es"
    and out: "property out ''exercises'' = JArr es"
    by (auto simp: validateWorkoutPlan_eq_Inr)
  from list_all2_item [OF es] assms(2) out show ?thesis
    by (simp add: exercise_at_def exercise_count_def)
qed

lemma exercise_routine_at:
  assumes "exercise_entry ex = Inr e" and "j < length (elems (property ex ''routines''))"
  shows "routine_entry (item (property ex ''routines'') j) = Inr (item (property e ''routines'') j)"
proof -
  from assms(1) obtain rs where
    rs: "list_all2 (\<lambda>x y. routine_entry x = Inr y) (elems (property ex ''routines'')) rs"
    and e: "property e ''routines'' = JArr rs"
    by (auto simp: exercise_entry_eq_Inr)
  from list_all2_item [OF rs assms(2)] e show ?thesis by simp
qed

lemma workout_routine_at:
  assumes "validateWorkoutPlan plan = Inr out"
    and "i < exercise_count plan" and "j < routine_count plan i"
  shows "routine_entry (routine_at plan i j) = Inr (routine_at out i j)"
  using exercise_routine_at [OF workout_exercise_at [OF assms(1,2)]] assms(3)
  by (simp add: routine_at_def routine_count_def)

lemma diet_meal_at:
  assumes "validateDietPlan plan = Inr out" and "i < meal_count plan"
  shows "meal_entry (meal_at plan i) = Inr (meal_at out i)"
proof -
  from assms(1) obtain ms where
    ms: "list_all2 (\<lambda>x y. meal_entry x = Inr y) (elems (property plan ''meals'')) ms"
    and out: "property out ''meals'' = JArr ms"
    by (auto simp: validateDietPlan_eq_Inr)
  from list_all2_item [OF ms] assms(2) out show ?thesis
    by (simp add: meal_at_def meal_count_def)
qed

lemmas path_eval =
  exercise_count_def routine_count_def meal_count_def exercise_at_def routine_at_def
  meal_at_def item_def

section \<open>Fallback names\<close>

lemma missing_name: "v \<in> {JUndefined, JNull, JStr []} \<Longrightarrow> ToString (or_else v (JStr d)) = Inr d"
  by (auto simp: or_else_def)

text \<open>
  C10: when the name of a routine entry is absent, null or the empty string,
  \<^verbatim>\<open>validateWorkoutPlan\<close> sets the routine's name to \<^verbatim>\<open>Unnamed Routine\<close>; likewise
  \<^verbatim>\<open>validateDietPlan\<close> sets a meal's missing or empty name to \<^verbatim>\<open>Unnamed Meal\<close>.
  The routine is the one at position \<open>j\<close> of the exercise entry \<open>i\<close>, the meal the one
  at position \<open>k\<close>.
\<close>

theorem missing_names_get_fallback:
  "(validateWorkoutPlan plan = Inr out \<and> i < exercise_count plan \<and> j < routine_count plan i \<and>
      property (routine_at plan i j) ''name'' \<in> {JUndefined, JNull, JStr ''''}
      \<longrightarrow> property (routine_at out i j) ''name'' = JStr ''Unnamed Routine'') \<and>
   (validateDietPlan diet = Inr out' \<and> k < meal_count diet \<and>
      property (meal_at diet k) ''name'' \<in> {JUndefined, JNull, JStr ''''}
      \<longrightarrow> property (meal_at out' k) ''name'' = JStr ''Unnamed Meal'')"
proof (intro conjI impI)
  assume a: "validateWorkoutPlan plan = Inr out \<and> i < exercise_count plan \<and>
    j < routine_count plan i \<and>
    property (routine_at plan i j) ''name'' \<in> {JUndefined, JNull, JStr ''''}"
  then have "routine_entry (routine_at plan i j) = Inr (routine_at out i j)"
    by (simp add: workout_routine_at)
  with a show "property (routine_at out i j) ''name'' = JStr ''Unnamed Routine''"
    by (auto simp: routine_entry_eq_Inr missing_name)
next
  assume a: "validateDietPlan diet = Inr out' \<and> k < meal_count diet \<and>
    property (meal_at diet k) ''name'' \<in> {JUndefined, JNull, JStr ''''}"
  then have "meal_entry (meal_at diet k) = Inr (meal_at out' k)"
    by (simp add: diet_meal_at)
  with a show "property (meal_at out' k) ''name'' = JStr ''Unnamed Meal''"
    by (auto simp: meal_entry_eq_Inr missing_name)
qed

text \<open>The theorem at a routine whose name is the empty string and at a meal whose name is
  null.\<close>

theorem missing_names_get_fallback_witness:
  "(validateWorkoutPlan
      (JObj [(''exercises'', JArr [JObj [(''routines'', JArr [JObj [(''name'', JStr '''')]])]])]) =
    Inr (JObj [(''schedule'', JArr []),
               (''exercises'',
                JArr [JObj [(''day'', JStr ''Unknown''),
                            (''routines'',
                             JArr [JObj [(''name'', JStr ''Unnamed Routine''),
                                         (''sets'', JNum (Fin 1)),
                                         (''reps'', JNum (Fin 10)),
                                         (''duration'', JNum (Fin 15)),
                                         (''description'', JStr ''No description'')]])]])]) \<and>
    0 < exercise_count
          (JObj [(''exercises'', JArr [JObj [(''routines'', JArr [JObj [(''name'', JStr '''')]])]])]) \<and>
    0 < routine_count
          (JObj [(''exercises'', JArr [JObj [(''routines'', JArr [JObj [(''name'', JStr '''')]])]])]) 0 \<and>
    property
      (routine_at
         (JObj [(''exercises'', JArr [JObj [(''routines'', JArr [JObj [(''name'', JStr '''')]])]])])
         0 0) ''name'' \<in> {JUndefined, JNull, JStr ''''}) \<and>
   property
     (routine_at
        (JObj [(''schedule'', JArr []),
               (''exercises'',
                JArr [JObj [(''day'', JStr ''Unknown''),
                            (''routines'',
                             JArr [JObj [(''name'', JStr ''Unnamed Routine''),
                                         (''sets'', JNum (Fin 1)),
                                         (''reps'', JNum (Fin 10)),
                                         (''duration'', JNum (Fin 15)),
                                         (''description'', JStr ''No description'')]])]])])
        0 0) ''name'' = JStr ''Unnamed Routine'' \<and>
   (validateDietPlan (JObj [(''meals'', JArr [JObj [(''name'', JNull)]])]) =
    Inr (JObj [(''dailyCalories'', JNum (Fin 2000)),
               (''meals'', JArr [JObj [(''name'', JStr ''Unnamed Meal''),
                                       (''foods'', JArr []), (''protein'', JArr [])]])]) \<and>
    0 < meal_count (JObj [(''meals'', JArr [JObj [(''name'', JNull)]])]) \<and>
    property (meal_at (JObj [(''meals'', JArr [JObj [(''name'', JNull)]])]) 0) ''name''
      \<in> {JUndefined, JNull, JStr ''''}) \<and>
   property
     (meal_at
        (JObj [(''dailyCalories'', JNum (Fin 2000)),
               (''meals'', JArr [JObj [(''name'', JStr ''Unnamed Meal''),
                                       (''foods'', JArr []), (''protein'', JArr [])]])])
        0) ''name'' = JStr ''Unnamed Meal''"
  (is "?W \<and> ?WC \<and> ?D \<and> ?DC")
proof -
  have w: ?W
    by (simp add: validator_eval path_eval)
  have d: ?D
    by (simp add: validator_eval path_eval)
  from w d missing_names_get_fallback
    [of "JObj [(''exercises'', JArr [JObj [(''routines'', JArr [JObj [(''name'', JStr '''')]])]])]"
      _ 0 0 "JObj [(''meals'', JArr [JObj [(''name'', JNull)]])]" _ 0]
  show ?thesis
    by blast
qed

section \<open>Totality and field types of \<^verbatim>\<open>validateWorkoutPlan\<close>\<close>

lemma plain_ToString_join:
  "plain v \<Longrightarrow> \<exists>s. ToString v = Inr s"
  "list_all plain xs \<Longrightarrow> \<exists>s. join xs = Inr s"
proof (induction v and xs rule: ToString_join.induct)
  case (9 x xs)
  have "\<exists>s. (if x = JUndefined \<or> x = JNull then Inr [] else ToString x) = Inr s"
  proof (cases "x = JUndefined \<or> x = JNull")
    case True
    then show ?thesis by simp
  next
    case False
    with 9 show ?thesis by simp
  qed
  then obtain s where s: "(if x = JUndefined \<or> x = JNull then Inr [] else ToString x) = Inr s" ..
  show ?case
  proof (cases "xs = []")
    case True
    with s show ?thesis by simp
  next
    case False
    with 9 obtain r where "join xs = Inr r"
      by auto
    with s False show ?thesis by simp
  qed
qed simp_all

lemma plain_ToString: "plain v \<Longrightarrow> \<exists>s. ToString v = Inr s"
  by (rule plain_ToString_join(1))

lemma plain_ToNumber: "plain v \<Longrightarrow> \<exists>n. ToNumber v = Inr n"
proof (cases v)
  case (JArr xs)
  assume "plain v"
  with JArr plain_ToString [of v] show ?thesis by auto
next
  case (JObj ps)
  assume "plain v"
  with JObj show ?thesis by simp
qed simp_all

lemma plain_or_else: "plain v \<Longrightarrow> plain (or_else v (JStr d))"
  by (simp add: or_else_def)

lemma list_all2_ex: "\<forall>x\<in>set xs. \<exists>y. R x y \<Longrightarrow> \<exists>ys. list_all2 R xs ys"
proof (induction xs)
  case Nil
  show ?case by simp
next
  case (Cons x xs)
  then obtain y ys where "R x y" and "list_all2 R xs ys"
    by auto
  then have "list_all2 R (x # xs) (y # ys)"
    by simp
  then show ?case ..
qed

lemma entries_returns:
  assumes "entries P v" and "\<And>x. P x \<Longrightarrow> \<exists>y. f x = Inr y"
  shows "(truthy v \<longrightarrow> isArray v) \<and> (\<exists>ys. list_all2 (\<lambda>x y. f x = Inr y) (elems v) ys)"
proof (cases "truthy v")
  case True
  with assms(1) have "isArray v" and "list_all P (elems v)"
    by (simp_all add: entries_def)
  with assms(2) have "\<forall>x\<in>set (elems v). \<exists>y. f x = Inr y"
    by (simp add: list_all_iff)
  from list_all2_ex [OF this] \<open>isArray v\<close> show ?thesis
    by simp
next
  case False
  from falsy_elems [OF False] False show ?thesis
    by simp
qed

lemma routine_shaped_returns:
  assumes "routine_shaped r"
  shows "\<exists>out. routine_entry r = Inr out"
proof -
  from assms have p: "present r"
    and pl: "plain (property r ''name'')" "plain (property r ''sets'')"
      "plain (property r ''reps'')" "plain (property r ''duration'')"
      "plain (property r ''description'')"
    by (simp_all add: routine_shaped_def)
  obtain name where 1: "ToString (or_else (property r ''name'') (JStr ''Unnamed Routine'')) = Inr name"
    using plain_ToString [OF plain_or_else [OF pl(1)]] ..
  obtain s where 2: "ToNumber (property r ''sets'') = Inr s"
    using plain_ToNumber [OF pl(2)] ..
  obtain q where 3: "ToNumber (property r ''reps'') = Inr q"
    using plain_ToNumber [OF pl(3)] ..
  obtain d where 4: "ToNumber (property r ''duration'') = Inr d"
    using plain_ToNumber [OF pl(4)] ..
  obtain desc where
    5: "ToString (or_else (property r ''description'') (JStr ''No description'')) = Inr desc"
    using plain_ToString [OF plain_or_else [OF pl(5)]] ..
  from p 1 2 3 4 5 show ?thesis
    by (simp add: routine_entry_eq_Inr)
qed

lemma exercise_shaped_returns:
  assumes "exercise_shaped ex"
  shows "\<exists>out. exercise_entry ex = Inr out"
proof -
  from assms have p: "present ex" and d: "plain (property ex ''day'')"
    and e: "entries routine_shaped (property ex ''routines'')"
    by (simp_all add: exercise_shaped_def)
  obtain day where 1: "ToString (or_else (property ex ''day'') (JStr ''Unknown'')) = Inr day"
    using plain_ToString [OF plain_or_else [OF d]] ..
  have "(truthy (property ex ''routines'') \<longrightarrow> isArray (property ex ''routines'')) \<and>
    (\<exists>ys. list_all2 (\<lambda>x y. routine_entry x = Inr y) (elems (property ex ''routines'')) ys)"
    using e routine_shaped_returns by (rule entries_returns)
  with p 1 show ?thesis
    by (auto simp: exercise_entry_eq_Inr)
qed

lemma workout_shaped_returns:
  assumes "workout_shaped plan"
  shows "\<exists>out. validateWorkoutPlan plan = Inr out"
proof -
  from assms have p: "present plan"
    and e: "entries exercise_shaped (property plan ''exercises'')"
    by (simp_all add: workout_shaped_def)
  have "(truthy (property plan ''exercises'') \<longrightarrow> isArray (property plan ''exercises'')) \<and>
    (\<exists>ys. list_all2 (\<lambda>x y. exercise_entry x = Inr y) (elems (property plan ''exercises'')) ys)"
    using e exercise_shaped_returns by (rule entries_returns)
  with p show ?thesis
    by (auto simp: validateWorkoutPlan_eq_Inr)
qed

lemma is_number_number_or: "is_number (number_or n d)"
  by (simp add: number_or_def)

lemma routine_entry_typed: "routine_entry r = Inr out \<Longrightarrow> is_Routine out"
  by (auto simp: routine_entry_eq_Inr is_Routine_def is_number_number_or)

lemma list_all2_typed:
  assumes "list_all2 (\<lambda>x y. f x = Inr y) xs ys" and "\<And>x y. f x = Inr y \<Longrightarrow> P y"
  shows "list_all P ys"
  using assms by (induction xs ys rule: list_all2_induct) simp_all

lemma exercise_entry_typed: "exercise_entry ex = Inr out \<Longrightarrow> is_Exercise out"
  by (auto simp: exercise_entry_eq_Inr is_Exercise_def
      intro: list_all2_typed [where f = routine_entry] routine_entry_typed)

lemma validateWorkoutPlan_typed: "validateWorkoutPlan plan = Inr out \<Longrightarrow> is_WorkoutPlan out"
  by (auto simp: validateWorkoutPlan_eq_Inr is_WorkoutPlan_def
      intro: list_all2_typed [where f = exercise_entry] exercise_entry_typed)

text \<open>
  C1, as stated, fails: \<^verbatim>\<open>validateWorkoutPlan(null)\<close> throws a TypeError at
  \<^verbatim>\<open>plan.schedule\<close>.
\<close>

theorem validateWorkoutPlan_null_throws: "validateWorkoutPlan JNull = Inl TypeError"
  by (simp add: validator_eval)

text \<open>
  C1, amended: \<^verbatim>\<open>validateWorkoutPlan\<close> returns on every input that is neither null nor
  undefined, whose \<^verbatim>\<open>exercises\<close> is falsy or an array of entries that are neither null nor
  undefined, each with \<^verbatim>\<open>routines\<close> falsy or an array of such entries, and in which no
  object converted to a string or number has an own property \<^verbatim>\<open>toString\<close>; and whenever
  it returns, \<^verbatim>\<open>schedule\<close> and \<^verbatim>\<open>exercises\<close> of the result are arrays, every exercise has a
  string \<^verbatim>\<open>day\<close> and an array \<^verbatim>\<open>routines\<close>, and every routine has strings for \<^verbatim>\<open>name\<close> and
  \<^verbatim>\<open>description\<close> and numbers other than \<^verbatim>\<open>NaN\<close> for \<^verbatim>\<open>sets\<close>, \<^verbatim>\<open>reps\<close> and
  \<^verbatim>\<open>duration\<close>.
\<close>

theorem validateWorkoutPlan_returns_typed:
  "(workout_shaped plan \<longrightarrow> (\<exists>out. validateWorkoutPlan plan = Inr out)) \<and>
   (\<forall>out. validateWorkoutPlan plan = Inr out \<longrightarrow> is_WorkoutPlan out)"
  using workout_shaped_returns validateWorkoutPlan_typed by blast

text \<open>The theorem at a plan with one exercise entry whose routine gives \<^verbatim>\<open>sets\<close> as a
  string and has no \<^verbatim>\<open>reps\<close>.\<close>

theorem validateWorkoutPlan_returns_typed_witness:
  "workout_shaped
     (JObj [(''schedule'', JArr [JStr ''Monday'']),
            (''exercises'',
             JArr [JObj [(''day'', JStr ''Monday''),
                         (''routines'', JArr [JObj [(''name'', JStr ''Squats''),
                                                    (''sets'', JStr ''3'')]])]])]) \<and>
   validateWorkoutPlan
     (JObj [(''schedule'', JArr [JStr ''Monday'']),
            (''exercises'',
             JArr [JObj [(''day'', JStr ''Monday''),
                         (''routines'', JArr [JObj [(''name'', JStr ''Squats''),
                                                    (''sets'', JStr ''3'')]])]])]) =
   Inr (JObj [(''schedule'', JArr [JStr ''Monday'']),
              (''exercises'',
               JArr [JObj [(''day'', JStr ''Monday''),
                           (''routines'',
                            JArr [JObj [(''name'', JStr ''Squats''),
                                        (''sets'', JNum (Fin 3)),
                                        (''reps'', JNum (Fin 10)),
                                        (''duration'', JNum (Fin 15)),
                                        (''description'', JStr ''No description'')]])]])]) \<and>
   is_WorkoutPlan
     (JObj [(''schedule'', JArr [JStr ''Monday'']),
            (''exercises'',
             JArr [JObj [(''day'', JStr ''Monday''),
                         (''routines'',
                          JArr [JObj [(''name'', JStr ''Squats''),
                                      (''sets'', JNum (Fin 3)),
                                      (''reps'', JNum (Fin 10)),
                                      (''duration'', JNum (Fin 15)),
                                      (''description'', JStr ''No description'')]])]])])"
  (is "workout_shaped ?plan \<and> validateWorkoutPlan ?plan = Inr ?out \<and> is_WorkoutPlan ?out")
proof -
  have s: "workout_shaped ?plan"
    by (simp add: workout_shaped_def exercise_shaped_def routine_shaped_def entries_def
        present_def)
  have v: "validateWorkoutPlan ?plan = Inr ?out"
    by (simp add: validator_eval number_eval)
  from validateWorkoutPlan_returns_typed [of ?plan] s v show ?thesis
    by blast
qed

section \<open>Coercion of the numeric fields\<close>

lemma routine_numbers:
  assumes "routine_entry r = Inr out"
  shows "\<exists>s p d.
           ToNumber (property r ''sets'') = Inr s \<and>
           ToNumber (property r ''reps'') = Inr p \<and>
           ToNumber (property r ''duration'') = Inr d \<and>
           property out ''sets'' = number_or s 1 \<and>
           property out ''reps'' = number_or p 10 \<and>
           property out ''duration'' = number_or d 15"
  using assms by (auto simp: routine_entry_eq_Inr)

lemma diet_calories:
  assumes "validateDietPlan plan = Inr out"
  shows "\<exists>c. ToNumber (property plan ''dailyCalories'') = Inr c \<and>
             property out ''dailyCalories'' = number_or c 2000"
  using assms by (auto simp: validateDietPlan_eq_Inr)

lemma meal_protein:
  assumes "meal_entry m = Inr out"
  shows "list_all2 (\<lambda>x y. \<exists>n. ToNumber x = Inr n \<and> y = JNum n)
           (elems (property m ''protein'')) (elems (property out ''protein''))"
  using assms by (auto simp: meal_entry_eq_Inr Number_eq_Inr)

lemma meal_foods:
  assumes "meal_entry m = Inr out"
  shows "list_all2 (\<lambda>x y. \<exists>s. ToString x = Inr s \<and> y = JStr s)
           (elems (property m ''foods'')) (elems (property out ''foods''))"
  using assms by (auto simp: meal_entry_eq_Inr String_eq_Inr)

text \<open>
  C2, as stated, fails. A routine with \<^verbatim>\<open>sets: 0\<close>, \<^verbatim>\<open>reps: true\<close> and
  \<^verbatim>\<open>duration: "0"\<close> is validated to sets 1 (the genuine number 0 is not left unchanged),
  reps 1 (\<^verbatim>\<open>true\<close> is none of a number or a numeric string, and does not give the default
  10) and duration 15 (the numeric string \<^verbatim>\<open>"0"\<close> does not give the parsed number); and
  the protein entries \<^verbatim>\<open>null\<close> and \<^verbatim>\<open>"abc"\<close> become 0 and \<^verbatim>\<open>NaN\<close>, not a default.
\<close>

theorem coercion_not_uniform:
  "validateWorkoutPlan
     (JObj [(''exercises'',
             JArr [JObj [(''routines'',
                          JArr [JObj [(''sets'', JNum (Fin 0)),
                                      (''reps'', JBool True),
                                      (''duration'', JStr ''0'')]])]])]) =
   Inr (JObj [(''schedule'', JArr []),
              (''exercises'',
               JArr [JObj [(''day'', JStr ''Unknown''),
                           (''routines'',
                            JArr [JObj [(''name'', JStr ''Unnamed Routine''),
                                        (''sets'', JNum (Fin 1)),
                                        (''reps'', JNum (Fin 1)),
                                        (''duration'', JNum (Fin 15)),
                                        (''description'', JStr ''No description'')]])]])]) \<and>
   validateDietPlan
     (JObj [(''meals'', JArr [JObj [(''protein'', JArr [JNull, JStr ''abc''])]])]) =
   Inr (JObj [(''dailyCalories'', JNum (Fin 2000)),
              (''meals'',
               JArr [JObj [(''name'', JStr ''Unnamed Meal''),
                           (''foods'', JArr []),
                           (''protein'', JArr [JNum (Fin 0), JNum NaN])]])])"
  by (simp add: validator_eval number_eval)

text \<open>
  C2, amended: whenever the validators return, each of \<^verbatim>\<open>sets\<close>, \<^verbatim>\<open>reps\<close>,
  \<^verbatim>\<open>duration\<close> and \<^verbatim>\<open>dailyCalories\<close> is \<^verbatim>\<open>Number(raw)\<close> when that is a number other than
  \<^verbatim>\<open>NaN\<close> and 0, and the field's default (1, 10, 15, 2000) otherwise; each protein entry is
  \<^verbatim>\<open>Number(raw)\<close>, with no default. (So a numeric string or a number with a value other
  than zero is kept as that number; null, undefined, a non-numeric string and a plain object
  give the default, as do 0, \<^verbatim>\<open>"0"\<close> and the empty string; \<^verbatim>\<open>true\<close> counts as 1.)
\<close>

theorem numeric_coercion:
  "(validateWorkoutPlan plan = Inr out \<and> i < exercise_count plan \<and> j < routine_count plan i \<longrightarrow>
      (\<exists>s p d.
         ToNumber (property (routine_at plan i j) ''sets'') = Inr s \<and>
         ToNumber (property (routine_at plan i j) ''reps'') = Inr p \<and>
         ToNumber (property (routine_at plan i j) ''duration'') = Inr d \<and>
         property (routine_at out i j) ''sets'' = number_or s 1 \<and>
         property (routine_at out i j) ''reps'' = number_or p 10 \<and>
         property (routine_at out i j) ''duration'' = number_or d 15)) \<and>
   (validateDietPlan diet = Inr out' \<longrightarrow>
      (\<exists>c. ToNumber (property diet ''dailyCalories'') = Inr c \<and>
           property out' ''dailyCalories'' = number_or c 2000)) \<and>
   (validateDietPlan diet = Inr out' \<and> k < meal_count diet \<longrightarrow>
      list_all2 (\<lambda>x y. \<exists>n. ToNumber x = Inr n \<and> y = JNum n)
        (elems (property (meal_at diet k) ''protein''))
        (elems (property (meal_at out' k) ''protein'')))"
proof (intro conjI impI)
  assume "validateWorkoutPlan plan = Inr out \<and> i < exercise_count plan \<and> j < routine_count plan i"
  then have "routine_entry (routine_at plan i j) = Inr (routine_at out i j)"
    by (simp add: workout_routine_at)
  then show "\<exists>s p d.
         ToNumber (property (routine_at plan i j) ''sets'') = Inr s \<and>
         ToNumber (property (routine_at plan i j) ''reps'') = Inr p \<and>
         ToNumber (property (routine_at plan i j) ''duration'') = Inr d \<and>
         property (routine_at out i j) ''sets'' = number_or s 1 \<and>
         property (routine_at out i j) ''reps'' = number_or p 10 \<and>
         property (routine_at out i j) ''duration'' = number_or d 15"
    by (rule routine_numbers)
next
  assume "validateDietPlan diet = Inr out'"
  then show "\<exists>c. ToNumber (property diet ''dailyCalories'') = Inr c \<and>
           property out' ''dailyCalories'' = number_or c 2000"
    by (rule diet_calories)
next
  assume "validateDietPlan diet = Inr out' \<and> k < meal_count diet"
  then have "meal_entry (meal_at diet k) = Inr (meal_at out' k)"
    by (simp add: diet_meal_at)
  then show "list_all2 (\<lambda>x y. \<exists>n. ToNumber x = Inr n \<and> y = JNum n)
        (elems (property (meal_at diet k) ''protein''))
        (elems (property (meal_at out' k) ''protein''))"
    by (rule meal_protein)
qed

text \<open>The theorem at a routine with \<^verbatim>\<open>sets: "10"\<close>, \<^verbatim>\<open>reps: null\<close> and no duration, and at
  a diet plan with \<^verbatim>\<open>dailyCalories: "abc"\<close> and the protein entries \<^verbatim>\<open>"12"\<close> and 7.\<close>

theorem numeric_coercion_witness:
  "(validateWorkoutPlan
      (JObj [(''exercises'',
              JArr [JObj [(''routines'',
                           JArr [JObj [(''sets'', JStr ''10''), (''reps'', JNull)]])]])]) =
    Inr (JObj [(''schedule'', JArr []),
               (''exercises'',
                JArr [JObj [(''day'', JStr ''Unknown''),
                            (''routines'',
                             JArr [JObj [(''name'', JStr ''Unnamed Routine''),
                                         (''sets'', JNum (Fin 10)),
                                         (''reps'', JNum (Fin 10)),
                                         (''duration'', JNum (Fin 15)),
                                         (''description'', JStr ''No description'')]])]])]) \<and>
    0 < exercise_count
          (JObj [(''exercises'',
                  JArr [JObj [(''routines'',
                               JArr [JObj [(''sets'', JStr ''10''), (''reps'', JNull)]])]])]) \<and>
    0 < routine_count
          (JObj [(''exercises'',
                  JArr [JObj [(''routines'',
                               JArr [JObj [(''sets'', JStr ''10''), (''reps'', JNull)]])]])]) 0) \<and>
   (\<exists>s p d.
      ToNumber (JStr ''10'') = Inr s \<and> ToNumber JNull = Inr p \<and> ToNumber JUndefined = Inr d \<and>
      JNum (Fin 10) = number_or s 1 \<and> JNum (Fin 10) = number_or p 10 \<and>
      JNum (Fin 15) = number_or d 15) \<and>
   (validateDietPlan
      (JObj [(''dailyCalories'', JStr ''abc''),
             (''meals'', JArr [JObj [(''protein'', JArr [JStr ''12'', JNum (Fin 7)])]])]) =
    Inr (JObj [(''dailyCalories'', JNum (Fin 2000)),
               (''meals'',
                JArr [JObj [(''name'', JStr ''Unnamed Meal''),
                            (''foods'', JArr []),
                            (''protein'', JArr [JNum (Fin 12), JNum (Fin 7)])]])]) \<and>
    0 < meal_count
          (JObj [(''dailyCalories'', JStr ''abc''),
                 (''meals'', JArr [JObj [(''protein'', JArr [JStr ''12'', JNum (Fin 7)])]])])) \<and>
   (\<exists>c. ToNumber (JStr ''abc'') = Inr c \<and> JNum (Fin 2000) = number_or c 2000) \<and>
   list_all2 (\<lambda>x y. \<exists>n. ToNumber x = Inr n \<and> y = JNum n)
     [JStr ''12'', JNum (Fin 7)] [JNum (Fin 12), JNum (Fin 7)]"
  (is "(validateWorkoutPlan ?plan = Inr ?out \<and> ?W1 \<and> ?W2) \<and> ?WC \<and>
       (validateDietPlan ?diet = Inr ?out' \<and> ?D1) \<and> ?DC \<and> ?PC")
proof -
  have w: "validateWorkoutPlan ?plan = Inr ?out \<and> ?W1 \<and> ?W2"
    by (simp add: validator_eval number_eval path_eval)
  have d: "validateDietPlan ?diet = Inr ?out' \<and> ?D1"
    by (simp add: validator_eval number_eval path_eval)
  note t = numeric_coercion [of ?plan ?out 0 0 ?diet ?out' 0]
  from t w have ?WC
    by (simp add: path_eval number_or_def number_eval)
  moreover from t d have ?DC
    by (simp add: number_or_def number_eval)
  moreover from t d have ?PC
    by (simp add: path_eval number_eval)
  ultimately show ?thesis
    using w d by blast
qed

section \<open>The diet plan\<close>

lemma number_or_2000: "number_or c 2000 = JNum (Fin 2000) \<longleftrightarrow> c = NaN \<or> c = Fin 0 \<or> c = Fin 2000"
  by (auto simp: number_or_def)

lemma number_or_not_zero: "d \<noteq> 0 \<Longrightarrow> number_or c d \<noteq> JNum (Fin 0)"
  by (auto simp: number_or_def)

text \<open>
  C4, as stated, fails: \<^verbatim>\<open>validateDietPlan({ dailyCalories: -5 })\<close> keeps -5, and
  \<^verbatim>\<open>validateDietPlan({ dailyCalories: "10.5" })\<close> gives 10.5; neither is a positive integer,
  and 2000 is not put in their place.
\<close>

theorem dailyCalories_not_positive_integer:
  "validateDietPlan (JObj [(''dailyCalories'', JNum (Fin (- 5)))]) =
   Inr (JObj [(''dailyCalories'', JNum (Fin (- 5))), (''meals'', JArr [])]) \<and>
   \<not> positive_integer (JNum (Fin (- 5))) \<and>
   validateDietPlan (JObj [(''dailyCalories'', JStr ''10.5'')]) =
   Inr (JObj [(''dailyCalories'', JNum (Fin (21 / 2))), (''meals'', JArr [])]) \<and>
   \<not> positive_integer (JNum (Fin (21 / 2)))"
proof -
  have "\<lfloor>(21 :: rat) / 2\<rfloor> = 10"
    using floor_divide_of_int_eq [where ?'a = rat, of 21 2] by simp
  then show ?thesis
    by (simp add: validator_eval number_eval)
qed

text \<open>
  C4, amended: for every input on which \<^verbatim>\<open>validateDietPlan\<close> returns,
  \<^verbatim>\<open>dailyCalories\<close> of the result is a number other than \<^verbatim>\<open>NaN\<close> and 0: it is
  \<^verbatim>\<open>Number(raw)\<close> when that is neither \<^verbatim>\<open>NaN\<close> nor 0, and 2000 otherwise, so that the
  result is 2000 exactly when \<^verbatim>\<open>Number(raw)\<close> is \<^verbatim>\<open>NaN\<close>, 0 or 2000. (It need not be
  positive or an integer.)
\<close>

theorem dailyCalories_coercion:
  "validateDietPlan plan = Inr out \<longrightarrow>
     (\<exists>c. ToNumber (property plan ''dailyCalories'') = Inr c \<and>
          property out ''dailyCalories'' = JNum (if c = NaN \<or> c = Fin 0 then Fin 2000 else c) \<and>
          (property out ''dailyCalories'' = JNum (Fin 2000) \<longleftrightarrow>
             c = NaN \<or> c = Fin 0 \<or> c = Fin 2000)) \<and>
     is_number (property out ''dailyCalories'') \<and>
     property out ''dailyCalories'' \<noteq> JNum (Fin 0)"
proof
  assume "validateDietPlan plan = Inr out"
  then obtain c where c: "ToNumber (property plan ''dailyCalories'') = Inr c"
    and out: "property out ''dailyCalories'' = number_or c 2000"
    using diet_calories by blast
  from c out have "\<exists>c. ToNumber (property plan ''dailyCalories'') = Inr c \<and>
          property out ''dailyCalories'' = JNum (if c = NaN \<or> c = Fin 0 then Fin 2000 else c) \<and>
          (property out ''dailyCalories'' = JNum (Fin 2000) \<longleftrightarrow>
             c = NaN \<or> c = Fin 0 \<or> c = Fin 2000)"
    using number_or_2000 [of c] by (simp add: number_or_def)
  moreover from out have "is_number (property out ''dailyCalories'')"
    by (simp add: is_number_number_or)
  moreover from out have "property out ''dailyCalories'' \<noteq> JNum (Fin 0)"
    by (simp add: number_or_not_zero)
  ultimately show "(\<exists>c. ToNumber (property plan ''dailyCalories'') = Inr c \<and>
          property out ''dailyCalories'' = JNum (if c = NaN \<or> c = Fin 0 then Fin 2000 else c) \<and>
          (property out ''dailyCalories'' = JNum (Fin 2000) \<longleftrightarrow>
             c = NaN \<or> c = Fin 0 \<or> c = Fin 2000)) \<and>
     is_number (property out ''dailyCalories'') \<and>
     property out ''dailyCalories'' \<noteq> JNum (Fin 0)"
    by blast
qed

text \<open>The theorem at a plan that gives \<^verbatim>\<open>dailyCalories\<close> as the string \<^verbatim>\<open>"1800"\<close>.\<close>

theorem dailyCalories_coercion_witness:
  "validateDietPlan (JObj [(''dailyCalories'', JStr ''1800'')]) =
   Inr (JObj [(''dailyCalories'', JNum (Fin 1800)), (''meals'', JArr [])]) \<and>
   ToNumber (JStr ''1800'') = Inr (Fin 1800) \<and>
   is_number (JNum (Fin 1800)) \<and> JNum (Fin 1800) \<noteq> JNum (Fin 0)"
  (is "validateDietPlan ?plan = Inr ?out \<and> ?C")
proof -
  have v: "validateDietPlan ?plan = Inr ?out"
    by (simp add: validator_eval number_eval)
  from dailyCalories_coercion [of ?plan ?out] v show ?thesis
    by (simp add: number_eval)
qed

text \<open>
  C5: every raw value for \<^verbatim>\<open>meals\<close>, for a meal's \<^verbatim>\<open>foods\<close> or for a meal's
  \<^verbatim>\<open>protein\<close> that is not a sequence becomes an empty sequence in the result. The code
  does so for \<^verbatim>\<open>foods\<close> and \<^verbatim>\<open>protein\<close>, which it tests with \<^verbatim>\<open>Array.isArray\<close>, and not
  for \<^verbatim>\<open>meals\<close>, which it tests for truthiness only: at \<^verbatim>\<open>{ meals: "none" }\<close> the
  validator throws a TypeError, where the claim has it return a plan with no meals.
\<close>

theorem validateDietPlan_meals_not_a_sequence:
  "validateDietPlan (JObj [(''meals'', JStr ''none'')]) = Inl TypeError"
  by (simp add: validator_eval)

text \<open>What holds of the lists of a meal: a value for \<^verbatim>\<open>foods\<close> or \<^verbatim>\<open>protein\<close> that is no
  array becomes the empty array, the elements of an array are converted one by one, and a
  falsy value for \<^verbatim>\<open>meals\<close> becomes the empty array.\<close>

lemma meal_lists:
  assumes "validateDietPlan plan = Inr out" and "k < meal_count plan"
  shows "isArray (property (meal_at out k) ''foods'')"
    and "isArray (property (meal_at out k) ''protein'')"
    and "list_all2 (\<lambda>x y. \<exists>s. ToString x = Inr s \<and> y = JStr s)
           (elems (property (meal_at plan k) ''foods''))
           (elems (property (meal_at out k) ''foods''))"
    and "list_all2 (\<lambda>x y. \<exists>n. ToNumber x = Inr n \<and> y = JNum n)
           (elems (property (meal_at plan k) ''protein''))
           (elems (property (meal_at out k) ''protein''))"
proof -
  from assms have m: "meal_entry (meal_at plan k) = Inr (meal_at out k)"
    by (rule diet_meal_at)
  then show "isArray (property (meal_at out k) ''foods'')"
    and "isArray (property (meal_at out k) ''protein'')"
    by (auto simp: meal_entry_eq_Inr)
  from m show "list_all2 (\<lambda>x y. \<exists>s. ToString x = Inr s \<and> y = JStr s)
           (elems (property (meal_at plan k) ''foods''))
           (elems (property (meal_at out k) ''foods''))"
    by (rule meal_foods)
  from m show "list_all2 (\<lambda>x y. \<exists>n. ToNumber x = Inr n \<and> y = JNum n)
           (elems (property (meal_at plan k) ''protein''))
           (elems (property (meal_at out k) ''protein''))"
    by (rule meal_protein)
qed

lemma falsy_meals:
  assumes "validateDietPlan plan = Inr out" and "\<not> truthy (property plan ''meals'')"
  shows "property out ''meals'' = JArr []"
  using assms falsy_elems [OF assms(2)] by (auto simp: validateDietPlan_eq_Inr)

section \<open>Validating a validated plan\<close>

text \<open>
  The second validation returns; its result has no empty \<^verbatim>\<open>day\<close>, \<^verbatim>\<open>name\<close> or
  \<^verbatim>\<open>description\<close>; and it is the plan it was given when that had none either.
\<close>

lemma number_or_again:
  assumes "d \<noteq> 0"
  shows "\<exists>m. number_or s d = JNum m \<and> number_or m d = JNum m"
  using assms by (simp add: number_or_def)

lemma string_or_else_again:
  assumes "d \<noteq> []"
  shows "\<exists>t. ToString (or_else (JStr s) (JStr d)) = Inr t \<and> t \<noteq> [] \<and> (s \<noteq> [] \<longrightarrow> t = s)"
  using assms by (simp add: or_else_def)

lemma list_again:
  assumes "list_all2 (\<lambda>x y. f x = Inr y) xs ys"
    and "\<And>x y. f x = Inr y \<Longrightarrow> \<exists>z. f y = Inr z \<and> N z \<and> (N y \<longrightarrow> z = y)"
  shows "\<exists>zs. list_all2 (\<lambda>y z. f y = Inr z) ys zs \<and> list_all N zs \<and> (list_all N ys \<longrightarrow> zs = ys)"
  using assms(1)
proof (induction xs ys rule: list_all2_induct)
  case Nil
  show ?case by simp
next
  case (Cons x xs y ys)
  from assms(2) [OF Cons.hyps(1)] obtain z where
    z: "f y = Inr z" "N z" "N y \<longrightarrow> z = y"
    by blast
  from Cons.IH obtain zs where
    zs: "list_all2 (\<lambda>y z. f y = Inr z) ys zs" "list_all N zs" "list_all N ys \<longrightarrow> zs = ys"
    by blast
  from z zs have "list_all2 (\<lambda>y z. f y = Inr z) (y # ys) (z # zs) \<and> list_all N (z # zs) \<and>
    (list_all N (y # ys) \<longrightarrow> z # zs = y # ys)"
    by simp
  then show ?case ..
qed

lemma list_same:
  assumes "list_all2 (\<lambda>x y. f x = Inr y) xs ys"
    and "\<And>x y. f x = Inr y \<Longrightarrow> f y = Inr y"
  shows "list_all2 (\<lambda>y z. f y = Inr z) ys ys"
  using assms by (induction xs ys rule: list_all2_induct) simp_all

lemma routine_entry_again:
  assumes "routine_entry r = Inr out"
  shows "\<exists>out'. routine_entry out = Inr out' \<and> routine_named out' \<and>
           (routine_named out \<longrightarrow> out' = out)"
proof -
  from assms obtain name s p d desc where
    out: "out = JObj [(''name'', JStr name), (''sets'', number_or s 1), (''reps'', number_or p 10),
                      (''duration'', number_or d 15), (''description'', JStr desc)]"
    by (auto simp: routine_entry_eq_Inr)
  obtain name' where name':
    "ToString (or_else (JStr name) (JStr ''Unnamed Routine'')) = Inr name'"
    "name' \<noteq> []" "name \<noteq> [] \<longrightarrow> name' = name"
    using string_or_else_again [of "''Unnamed Routine''" name] by auto
  obtain desc' where desc':
    "ToString (or_else (JStr desc) (JStr ''No description'')) = Inr desc'"
    "desc' \<noteq> []" "desc \<noteq> [] \<longrightarrow> desc' = desc"
    using string_or_else_again [of "''No description''" desc] by auto
  obtain s' where s': "number_or s 1 = JNum s'" "number_or s' 1 = JNum s'"
    using number_or_again [of 1 s] by auto
  obtain p' where p': "number_or p 10 = JNum p'" "number_or p' 10 = JNum p'"
    using number_or_again [of 10 p] by auto
  obtain d' where d': "number_or d 15 = JNum d'" "number_or d' 15 = JNum d'"
    using number_or_again [of 15 d] by auto
  let ?out' = "JObj [(''name'', JStr name'), (''sets'', JNum s'), (''reps'', JNum p'),
                     (''duration'', JNum d'), (''description'', JStr desc')]"
  have "routine_entry out = Inr ?out'"
    unfolding routine_entry_eq_Inr
    using out name'(1) desc'(1) s' p' d' by (simp add: present_def)
  moreover have "routine_named ?out'"
    using name'(2) desc'(2) by (simp add: routine_named_def named_def)
  moreover have "routine_named out \<longrightarrow> ?out' = out"
    using out name'(3) desc'(3) s'(1) p'(1) d'(1) by (simp add: routine_named_def named_def)
  ultimately show ?thesis
    by blast
qed

lemma exercise_entry_again:
  assumes "exercise_entry ex = Inr out"
  shows "\<exists>out'. exercise_entry out = Inr out' \<and> exercise_named out' \<and>
           (exercise_named out \<longrightarrow> out' = out)"
proof -
  from assms obtain day rs where
    rs: "list_all2 (\<lambda>x y. routine_entry x = Inr y) (elems (property ex ''routines'')) rs"
    and out: "out = JObj [(''day'', JStr day), (''routines'', JArr rs)]"
    by (auto simp: exercise_entry_eq_Inr)
  obtain day' where day':
    "ToString (or_else (JStr day) (JStr ''Unknown'')) = Inr day'"
    "day' \<noteq> []" "day \<noteq> [] \<longrightarrow> day' = day"
    using string_or_else_again [of "''Unknown''" day] by auto
  have "\<exists>zs. list_all2 (\<lambda>y z. routine_entry y = Inr z) rs zs \<and> list_all routine_named zs \<and>
    (list_all routine_named rs \<longrightarrow> zs = rs)"
    using rs routine_entry_again by (rule list_again)
  then obtain rs' where rs':
    "list_all2 (\<lambda>y z. routine_entry y = Inr z) rs rs'"
    "list_all routine_named rs'" "list_all routine_named rs \<longrightarrow> rs' = rs"
    by blast
  let ?out' = "JObj [(''day'', JStr day'), (''routines'', JArr rs')]"
  have "exercise_entry out = Inr ?out'"
    unfolding exercise_entry_eq_Inr
    using out day'(1) rs'(1) by (simp add: present_def)
  moreover have "exercise_named ?out'"
    using day'(2) rs'(2) by (simp add: exercise_named_def named_def)
  moreover have "exercise_named out \<longrightarrow> ?out' = out"
    using out day'(3) rs'(3) by (simp add: exercise_named_def named_def)
  ultimately show ?thesis
    by blast
qed

lemma validateWorkoutPlan_again:
  assumes "validateWorkoutPlan x = Inr p"
  shows "\<exists>q. validateWorkoutPlan p = Inr q \<and> workout_named q \<and> (workout_named p \<longrightarrow> q = p)"
proof -
  from assms obtain sch es where
    es: "list_all2 (\<lambda>x y. exercise_entry x = Inr y) (elems (property x ''exercises'')) es"
    and sch: "isArray sch"
    and p: "p = JObj [(''schedule'', sch), (''exercises'', JArr es)]"
    by (auto simp: validateWorkoutPlan_eq_Inr)
  have "\<exists>zs. list_all2 (\<lambda>y z. exercise_entry y = Inr z) es zs \<and> list_all exercise_named zs \<and>
    (list_all exercise_named es \<longrightarrow> zs = es)"
    using es exercise_entry_again by (rule list_again)
  then obtain es' where es':
    "list_all2 (\<lambda>y z. exercise_entry y = Inr z) es es'"
    "list_all exercise_named es'" "list_all exercise_named es \<longrightarrow> es' = es"
    by blast
  let ?q = "JObj [(''schedule'', sch), (''exercises'', JArr es')]"
  have "validateWorkoutPlan p = Inr ?q"
    unfolding validateWorkoutPlan_eq_Inr
    using p sch es'(1) by (simp add: present_def)
  moreover have "workout_named ?q"
    using es'(2) by (simp add: workout_named_def)
  moreover have "workout_named p \<longrightarrow> ?q = p"
    using p es'(3) by (simp add: workout_named_def)
  ultimately show ?thesis
    by blast
qed

lemma String_again: "String x = Inr y \<Longrightarrow> String y = Inr y"
  by (auto simp: String_eq_Inr)

lemma Number_again: "Number x = Inr y \<Longrightarrow> Number y = Inr y"
  by (auto simp: Number_eq_Inr)

lemma meal_entry_again:
  assumes "meal_entry m = Inr out"
  shows "\<exists>out'. meal_entry out = Inr out' \<and> meal_named out' \<and> (meal_named out \<longrightarrow> out' = out)"
proof -
  from assms obtain name fs ps where
    fs: "list_all2 (\<lambda>x y. String x = Inr y) (elems (property m ''foods'')) fs"
    and ps: "list_all2 (\<lambda>x y. Number x = Inr y) (elems (property m ''protein'')) ps"
    and out: "out = JObj [(''name'', JStr name), (''foods'', JArr fs), (''protein'', JArr ps)]"
    by (auto simp: meal_entry_eq_Inr)
  obtain name' where name':
    "ToString (or_else (JStr name) (JStr ''Unnamed Meal'')) = Inr name'"
    "name' \<noteq> []" "name \<noteq> [] \<longrightarrow> name' = name"
    using string_or_else_again [of "''Unnamed Meal''" name] by auto
  have fs': "list_all2 (\<lambda>y z. String y = Inr z) fs fs"
    using fs String_again by (rule list_same)
  have ps': "list_all2 (\<lambda>y z. Number y = Inr z) ps ps"
    using ps Number_again by (rule list_same)
  let ?out' = "JObj [(''name'', JStr name'), (''foods'', JArr fs), (''protein'', JArr ps)]"
  have "meal_entry out = Inr ?out'"
    unfolding meal_entry_eq_Inr
    using out name'(1) fs' ps' by (simp add: present_def)
  moreover have "meal_named ?out'"
    using name'(2) by (simp add: meal_named_def named_def)
  moreover have "meal_named out \<longrightarrow> ?out' = out"
    using out name'(3) by (simp add: meal_named_def named_def)
  ultimately show ?thesis
    by blast
qed

lemma validateDietPlan_again:
  assumes "validateDietPlan x = Inr p"
  shows "\<exists>q. validateDietPlan p = Inr q \<and> diet_named q \<and> (diet_named p \<longrightarrow> q = p)"
proof -
  from assms obtain c ms where
    ms: "list_all2 (\<lambda>x y. meal_entry x = Inr y) (elems (property x ''meals'')) ms"
    and p: "p = JObj [(''dailyCalories'', number_or c 2000), (''meals'', JArr ms)]"
    by (auto simp: validateDietPlan_eq_Inr)
  obtain c' where c': "number_or c 2000 = JNum c'" "number_or c' 2000 = JNum c'"
    using number_or_again [of 2000 c] by auto
  have "\<exists>zs. list_all2 (\<lambda>y z. meal_entry y = Inr z) ms zs \<and> list_all meal_named zs \<and>
    (list_all meal_named ms \<longrightarrow> zs = ms)"
    using ms meal_entry_again by (rule list_again)
  then obtain ms' where ms':
    "list_all2 (\<lambda>y z. meal_entry y = Inr z) ms ms'"
    "list_all meal_named ms'" "list_all meal_named ms \<longrightarrow> ms' = ms"
    by blast
  let ?q = "JObj [(''dailyCalories'', JNum c'), (''meals'', JArr ms')]"
  have "validateDietPlan p = Inr ?q"
    unfolding validateDietPlan_eq_Inr
    using p c' ms'(1) by (simp add: present_def)
  moreover have "diet_named ?q"
    using ms'(2) by (simp add: diet_named_def)
  moreover have "diet_named p \<longrightarrow> ?q = p"
    using p c'(1) ms'(3) by (simp add: diet_named_def)
  ultimately show ?thesis
    by blast
qed

text \<open>
  C7, as stated, fails: \<^verbatim>\<open>validateWorkoutPlan({ exercises: [{ day: [] }] })\<close> returns a plan
  whose \<^verbatim>\<open>day\<close> is the empty string (the empty array is truthy and converts to it), and
  validating that plan again returns another plan, whose \<^verbatim>\<open>day\<close> is \<^verbatim>\<open>Unknown\<close>.
\<close>

theorem revalidation_changes_empty_day:
  "validateWorkoutPlan (JObj [(''exercises'', JArr [JObj [(''day'', JArr [])]])]) =
   Inr (JObj [(''schedule'', JArr []),
              (''exercises'', JArr [JObj [(''day'', JStr ''''), (''routines'', JArr [])]])]) \<and>
   validateWorkoutPlan
     (JObj [(''schedule'', JArr []),
            (''exercises'', JArr [JObj [(''day'', JStr ''''), (''routines'', JArr [])]])]) =
   Inr (JObj [(''schedule'', JArr []),
              (''exercises'', JArr [JObj [(''day'', JStr ''Unknown''), (''routines'', JArr [])]])]) \<and>
   JObj [(''schedule'', JArr []),
         (''exercises'', JArr [JObj [(''day'', JStr ''Unknown''), (''routines'', JArr [])]])] \<noteq>
   JObj [(''schedule'', JArr []),
         (''exercises'', JArr [JObj [(''day'', JStr ''''), (''routines'', JArr [])]])]"
  by (simp add: validator_eval)

text \<open>
  C7, amended: for every plan \<open>p\<close> that \<^verbatim>\<open>validateWorkoutPlan\<close>, respectively
  \<^verbatim>\<open>validateDietPlan\<close>, returns, the validator returns on \<open>p\<close> as well, and what it returns
  there is a fixed point: \<^verbatim>\<open>validate(validate(p))\<close> equals \<^verbatim>\<open>validate(p)\<close>. The plan \<open>p\<close>
  itself is returned unchanged when none of its \<^verbatim>\<open>day\<close>, \<^verbatim>\<open>name\<close> and \<^verbatim>\<open>description\<close>
  strings (for a diet plan, none of its meal names) is empty.
\<close>

theorem revalidation:
  "(validateWorkoutPlan x = Inr p \<longrightarrow>
      (\<exists>q. validateWorkoutPlan p = Inr q \<and> validateWorkoutPlan q = Inr q) \<and>
      (workout_named p \<longrightarrow> validateWorkoutPlan p = Inr p)) \<and>
   (validateDietPlan y = Inr d \<longrightarrow>
      (\<exists>e. validateDietPlan d = Inr e \<and> validateDietPlan e = Inr e) \<and>
      (diet_named d \<longrightarrow> validateDietPlan d = Inr d))"
proof (intro conjI impI)
  assume x: "validateWorkoutPlan x = Inr p"
  from validateWorkoutPlan_again [OF x] obtain q where
    q: "validateWorkoutPlan p = Inr q" "workout_named q" "workout_named p \<longrightarrow> q = p"
    by blast
  from validateWorkoutPlan_again [OF q(1)] q(2) have "validateWorkoutPlan q = Inr q"
    by auto
  with q(1) show "\<exists>q. validateWorkoutPlan p = Inr q \<and> validateWorkoutPlan q = Inr q"
    by blast
  assume "workout_named p"
  with q show "validateWorkoutPlan p = Inr p"
    by simp
next
  assume y: "validateDietPlan y = Inr d"
  from validateDietPlan_again [OF y] obtain e where
    e: "validateDietPlan d = Inr e" "diet_named e" "diet_named d \<longrightarrow> e = d"
    by blast
  from validateDietPlan_again [OF e(1)] e(2) have "validateDietPlan e = Inr e"
    by auto
  with e(1) show "\<exists>e. validateDietPlan d = Inr e \<and> validateDietPlan e = Inr e"
    by blast
  assume "diet_named d"
  with e show "validateDietPlan d = Inr d"
    by simp
qed

text \<open>The theorem at the plan of C8 and at a diet plan with one meal, whose validations have
  no empty string and are returned unchanged by a second validation.\<close>

theorem revalidation_witness:
  "(validateWorkoutPlan
      (JObj [(''exercises'',
              JArr [JObj [(''day'', JStr ''Monday''),
                          (''routines'', JArr [JObj [(''name'', JStr ''Squats'')]])]])]) =
    Inr (JObj [(''schedule'', JArr []),
               (''exercises'',
                JArr [JObj [(''day'', JStr ''Monday''),
                            (''routines'',
                             JArr [JObj [(''name'', JStr ''Squats''),
                                         (''sets'', JNum (Fin 1)),
                                         (''reps'', JNum (Fin 10)),
                                         (''duration'', JNum (Fin 15)),
                                         (''description'', JStr ''No description'')]])]])]) \<and>
    workout_named
      (JObj [(''schedule'', JArr []),
             (''exercises'',
              JArr [JObj [(''day'', JStr ''Monday''),
                          (''routines'',
                           JArr [JObj [(''name'', JStr ''Squats''),
                                       (''sets'', JNum (Fin 1)),
                                       (''reps'', JNum (Fin 10)),
                                       (''duration'', JNum (Fin 15)),
                                       (''description'', JStr ''No description'')]])]])])) \<and>
   validateWorkoutPlan
     (JObj [(''schedule'', JArr []),
            (''exercises'',
             JArr [JObj [(''day'', JStr ''Monday''),
                         (''routines'',
                          JArr [JObj [(''name'', JStr ''Squats''),
                                      (''sets'', JNum (Fin 1)),
                                      (''reps'', JNum (Fin 10)),
                                      (''duration'', JNum (Fin 15)),
                                      (''description'', JStr ''No description'')]])]])]) =
   Inr (JObj [(''schedule'', JArr []),
              (''exercises'',
               JArr [JObj [(''day'', JStr ''Monday''),
                           (''routines'',
                            JArr [JObj [(''name'', JStr ''Squats''),
                                        (''sets'', JNum (Fin 1)),
                                        (''reps'', JNum (Fin 10)),
                                        (''duration'', JNum (Fin 15)),
                                        (''description'', JStr ''No description'')]])]])]) \<and>
   (validateDietPlan
      (JObj [(''dailyCalories'', JStr ''1800''),
             (''meals'', JArr [JObj [(''name'', JStr ''Lunch''),
                                     (''foods'', JArr [JStr ''Rice'']),
                                     (''protein'', JArr [JStr ''12''])]])]) =
    Inr (JObj [(''dailyCalories'', JNum (Fin 1800)),
               (''meals'', JArr [JObj [(''name'', JStr ''Lunch''),
                                       (''foods'', JArr [JStr ''Rice'']),
                                       (''protein'', JArr [JNum (Fin 12)])]])]) \<and>
    diet_named
      (JObj [(''dailyCalories'', JNum (Fin 1800)),
             (''meals'', JArr [JObj [(''name'', JStr ''Lunch''),
                                     (''foods'', JArr [JStr ''Rice'']),
                                     (''protein'', JArr [JNum (Fin 12)])]])])) \<and>
   validateDietPlan
     (JObj [(''dailyCalories'', JNum (Fin 1800)),
            (''meals'', JArr [JObj [(''name'', JStr ''Lunch''),
                                    (''foods'', JArr [JStr ''Rice'']),
                                    (''protein'', JArr [JNum (Fin 12)])]])]) =
   Inr (JObj [(''dailyCalories'', JNum (Fin 1800)),
              (''meals'', JArr [JObj [(''name'', JStr ''Lunch''),
                                      (''foods'', JArr [JStr ''Rice'']),
                                      (''protein'', JArr [JNum (Fin 12)])]])])"
  (is "(validateWorkoutPlan ?x = Inr ?p \<and> ?N) \<and> ?WC \<and> (validateDietPlan ?y = Inr ?d \<and> ?M) \<and> ?DC")
proof -
  have w: "validateWorkoutPlan ?x = Inr ?p \<and> ?N"
    by (simp add: validator_eval workout_named_def exercise_named_def routine_named_def named_def)
  have d: "validateDietPlan ?y = Inr ?d \<and> ?M"
    by (simp add: validator_eval number_eval diet_named_def meal_named_def named_def)
  from revalidation [of ?x ?p ?y ?d] w d show ?thesis
    by blast
qed

section \<open>\<^verbatim>\<open>syncUser\<close> inserts a user once\<close>

lemma no_user_iff:
  "find (\<lambda>(i, u). clerkId u = c) (users d) = None \<longleftrightarrow>
     \<not> (\<exists>i u. (i, u) \<in> set (users d) \<and> clerkId u = c)"
  by (auto simp: find_None_iff)

lemma clerk_count_zero_iff:
  "clerk_count c d = 0 \<longleftrightarrow> \<not> (\<exists>i u. (i, u) \<in> set (users d) \<and> clerkId u = c)"
  by (auto simp: clerk_count_def filter_empty_conv)

lemma syncUser_existing:
  assumes "\<exists>i u. (i, u) \<in> set (users d) \<and> clerkId u = clerkId args"
  shows "syncUser args d = d"
proof -
  from assms have "find (\<lambda>(i, u). clerkId u = clerkId args) (users d) \<noteq> None"
    by (simp add: no_user_iff)
  then show ?thesis
    by (auto simp: syncUser_def)
qed

lemma syncUser_new:
  assumes "\<not> (\<exists>i u. (i, u) \<in> set (users d) \<and> clerkId u = clerkId args)"
  shows "syncUser args d = d\<lparr>users := users d @ [(next_id d, args)], next_id := next_id d + 1\<rparr>"
proof -
  from assms have "find (\<lambda>(i, u). clerkId u = clerkId args) (users d) = None"
    by (simp add: no_user_iff)
  then show ?thesis
    by (simp add: syncUser_def)
qed

lemma syncUser_count:
  "clerk_count c (syncUser args d) =
     (if clerkId args = c \<and> clerk_count c d = 0 then 1 else clerk_count c d)"
proof (cases "\<exists>i u. (i, u) \<in> set (users d) \<and> clerkId u = clerkId args")
  case True
  then have "clerkId args = c \<longrightarrow> clerk_count c d \<noteq> 0"
    by (auto simp: clerk_count_zero_iff)
  with syncUser_existing [OF True] show ?thesis
    by simp
next
  case False
  then have "clerkId args = c \<longrightarrow> clerk_count c d = 0"
    by (auto simp: clerk_count_zero_iff)
  with syncUser_new [OF False] show ?thesis
    by (auto simp: clerk_count_def)
qed

lemma syncUser_calls_count:
  "clerk_count c (fold syncUser calls d) \<le> max 1 (clerk_count c d)"
proof (induction calls arbitrary: d)
  case Nil
  show ?case by simp
next
  case (Cons a calls)
  have "clerk_count c (fold syncUser (a # calls) d) \<le> max 1 (clerk_count c (syncUser a d))"
    using Cons.IH [of "syncUser a d"] by simp
  also have "\<dots> \<le> max 1 (clerk_count c d)"
    by (simp add: syncUser_count)
  finally show ?case .
qed

lemma syncUser_length:
  "length (users (syncUser args d)) =
     length (users d) + (if clerk_count (clerkId args) d = 0 then 1 else 0)"
proof (cases "\<exists>i u. (i, u) \<in> set (users d) \<and> clerkId u = clerkId args")
  case True
  with syncUser_existing [OF True] show ?thesis
    by (simp add: clerk_count_zero_iff)
next
  case False
  with syncUser_new [OF False] show ?thesis
    by (simp add: clerk_count_zero_iff)
qed

lemma syncUser_calls_length:
  assumes "\<forall>a\<in>set calls. clerkId a = c"
  shows "length (users (fold syncUser calls d)) \<le>
           length (users d) + (if clerk_count c d = 0 then 1 else 0)"
  using assms
proof (induction calls arbitrary: d)
  case Nil
  show ?case by simp
next
  case (Cons a calls)
  then have a: "clerkId a = c" and rest: "\<forall>a\<in>set calls. clerkId a = c"
    by simp_all
  have "length (users (fold syncUser (a # calls) d)) \<le>
          length (users (syncUser a d)) + (if clerk_count c (syncUser a d) = 0 then 1 else 0)"
    using Cons.IH [OF rest, of "syncUser a d"] by simp
  also have "\<dots> \<le> length (users d) + (if clerk_count c d = 0 then 1 else 0)"
    using a by (simp add: syncUser_length syncUser_count)
  finally show ?case .
qed

text \<open>
  C9: \<^verbatim>\<open>syncUser\<close> is an insert guarded by \<^verbatim>\<open>clerkId\<close>. For every database and all
  arguments: if a user with the given \<^verbatim>\<open>clerkId\<close> is in the table \<^verbatim>\<open>users\<close>, the mutation
  leaves the database as it is; if there is none, it adds exactly one document, with the
  given \<^verbatim>\<open>clerkId\<close>, \<^verbatim>\<open>email\<close>, \<^verbatim>\<open>name\<close> and \<^verbatim>\<open>image\<close>, at the end of the table and changes
  nothing else but the next id. So after any sequence of calls the table has at most one
  user of a \<^verbatim>\<open>clerkId\<close> that it had none of before (and as many as before otherwise), and
  calls that all have the same \<^verbatim>\<open>clerkId\<close> add at most one document.
\<close>

theorem syncUser_inserts_once:
  "((\<exists>i u. (i, u) \<in> set (users d) \<and> clerkId u = clerkId args) \<longrightarrow> syncUser args d = d) \<and>
   (\<not> (\<exists>i u. (i, u) \<in> set (users d) \<and> clerkId u = clerkId args) \<longrightarrow>
      syncUser args d =
        d\<lparr>users := users d @ [(next_id d, args)], next_id := next_id d + 1\<rparr>) \<and>
   clerk_count c (fold syncUser calls d) \<le> max 1 (clerk_count c d) \<and>
   ((\<forall>a\<in>set calls. clerkId a = c) \<longrightarrow>
      length (users (fold syncUser calls d)) \<le> length (users d) + 1)"
proof (intro conjI impI)
  assume "\<exists>i u. (i, u) \<in> set (users d) \<and> clerkId u = clerkId args"
  then show "syncUser args d = d"
    by (rule syncUser_existing)
next
  assume "\<not> (\<exists>i u. (i, u) \<in> set (users d) \<and> clerkId u = clerkId args)"
  then show "syncUser args d =
      d\<lparr>users := users d @ [(next_id d, args)], next_id := next_id d + 1\<rparr>"
    by (rule syncUser_new)
next
  show "clerk_count c (fold syncUser calls d) \<le> max 1 (clerk_count c d)"
    by (rule syncUser_calls_count)
next
  assume "\<forall>a\<in>set calls. clerkId a = c"
  from syncUser_calls_length [OF this, of d]
  show "length (users (fold syncUser calls d)) \<le> length (users d) + 1"
    by (simp split: if_splits)
qed

text \<open>The theorem at the empty database, where the call inserts the user, at the database
  after that call, where the same call changes nothing, and at two calls in a row.\<close>

theorem syncUser_inserts_once_witness:
  "\<not> (\<exists>i u. (i, u) \<in> set (users \<lparr>users = [], plans = [], next_id = 0\<rparr>) \<and>
            clerkId u = clerkId \<lparr>clerkId = ''user_1'', email = ''ann@example.org'',
                                name = ''Ann'', image = None\<rparr>) \<and>
   syncUser \<lparr>clerkId = ''user_1'', email = ''ann@example.org'', name = ''Ann'', image = None\<rparr>
     \<lparr>users = [], plans = [], next_id = 0\<rparr> =
   \<lparr>users = [(0, \<lparr>clerkId = ''user_1'', email = ''ann@example.org'', name = ''Ann'',
                   image = None\<rparr>)],
    plans = [], next_id = 1\<rparr> \<and>
   (\<exists>i u. (i, u) \<in> set (users
              \<lparr>users = [(0, \<lparr>clerkId = ''user_1'', email = ''ann@example.org'', name = ''Ann'',
                              image = None\<rparr>)],
               plans = [], next_id = 1\<rparr>) \<and>
           clerkId u = clerkId \<lparr>clerkId = ''user_1'', email = ''other@example.org'',
                               name = ''Ann B'', image = Some ''pic''\<rparr>) \<and>
   syncUser \<lparr>clerkId = ''user_1'', email = ''other@example.org'', name = ''Ann B'',
             image = Some ''pic''\<rparr>
     \<lparr>users = [(0, \<lparr>clerkId = ''user_1'', email = ''ann@example.org'', name = ''Ann'',
                     image = None\<rparr>)],
      plans = [], next_id = 1\<rparr> =
   \<lparr>users = [(0, \<lparr>clerkId = ''user_1'', email = ''ann@example.org'', name = ''Ann'',
                   image = None\<rparr>)],
    plans = [], next_id = 1\<rparr> \<and>
   list_all (\<lambda>a. clerkId a = ''user_1'')
     [\<lparr>clerkId = ''user_1'', email = ''ann@example.org'', name = ''Ann'', image = None\<rparr>,
      \<lparr>clerkId = ''user_1'', email = ''other@example.org'', name = ''Ann B'',
       image = Some ''pic''\<rparr>] \<and>
   length (users (fold syncUser
                    [\<lparr>clerkId = ''user_1'', email = ''ann@example.org'', name = ''Ann'',
                      image = None\<rparr>,
                     \<lparr>clerkId = ''user_1'', email = ''other@example.org'', name = ''Ann B'',
                      image = Some ''pic''\<rparr>]
                    \<lparr>users = [], plans = [], next_id = 0\<rparr>)) \<le>
   length (users \<lparr>users = [], plans = [], next_id = 0\<rparr>) + 1"
  (is "?H0 \<and> syncUser ?a ?d0 = ?d1 \<and> ?H1 \<and> syncUser ?b ?d1 = ?d1 \<and> ?H2 \<and> ?L")
proof -
  have h0: ?H0
    by simp
  have h1: ?H1
    by simp
  have h2: ?H2
    by simp
  then have h2': "\<forall>a\<in>set [?a, ?b]. clerkId a = ''user_1''"
    by (simp add: list_all_iff)
  note t0 = syncUser_inserts_once [of ?d0 ?a "''user_1''" "[?a, ?b]"]
  note t1 = syncUser_inserts_once [of ?d1 ?b "''user_1''" "[]"]
  have "syncUser ?a ?d0 = ?d0\<lparr>users := users ?d0 @ [(next_id ?d0, ?a)], next_id := next_id ?d0 + 1\<rparr>"
    using h0 by (rule t0 [THEN conjunct2, THEN conjunct1, THEN mp])
  then have e0: "syncUser ?a ?d0 = ?d1"
    by simp
  have e1: "syncUser ?b ?d1 = ?d1"
    using h1 by (rule t1 [THEN conjunct1, THEN mp])
  have l: ?L
    using h2' by (rule t0 [THEN conjunct2, THEN conjunct2, THEN conjunct2, THEN mp])
  from h0 e0 h1 e1 h2 l show ?thesis
    by (intro conjI)
qed

section \<open>The handler: no plan without both answers, one plan with them\<close>

lemma get_present: "present v \<Longrightarrow> get v k = Inr (property v k)"
  by (simp add: get_eq_Inr)

lemma prompts_differ:
  assumes "workoutPrompt age goal weight = Inr wp" and "dietPrompt goal' = Inr dp"
  shows "wp \<noteq> dp"
  using assms by (auto simp: workoutPrompt_def dietPrompt_def bindE_eq_Inr)

lemma plan_args_fails:
  assumes "request_json env = Inr payload" and "present payload"
    and "workoutPrompt (property payload ''age'') (property payload ''fitness_goal'')
           (property payload ''weight'') = Inr wp"
    and "dietPrompt (property payload ''fitness_goal'') = Inr dp"
    and "generation_fails env wp \<or> generation_fails env dp"
  shows "\<exists>e. plan_args env = Inl e"
  using assms
  by (auto simp: plan_args_def get_present generation_fails_def bindE_def split: sum.splits)

lemma plan_args_returns:
  assumes "request_json env = Inr payload" and "present payload"
    and "workoutPrompt (property payload ''age'') (property payload ''fitness_goal'')
           (property payload ''weight'') = Inr wp"
    and "dietPrompt (property payload ''fitness_goal'') = Inr dp"
    and "generateContent env wp = Inr (Inr wtext)" and "generateContent env dp = Inr (Inr dtext)"
    and "JSON_parse env wtext = Inr wjson" and "JSON_parse env dtext = Inr djson"
    and "validateWorkoutPlan wjson = Inr wplan" and "validateDietPlan djson = Inr dplan"
    and "ToString (property payload ''fitness_goal'') = Inr goal"
  shows "plan_args env =
           Inr \<lparr>userId = property payload ''user_id'', name = goal @ '' Plan'',
                workoutPlan = wplan, dietPlan = dplan, isActive = True\<rparr>"
  using assms by (simp add: plan_args_def get_present)

lemma handler_fails:
  assumes "plan_args env = Inl e"
  shows "handler env b = (failure, b)"
  using assms by (simp add: handler_def failure_def)

lemma createPlan_accepts:
  assumes "plan_conforms args"
  shows "createPlan args d =
           Inr (next_id d, d\<lparr>plans := plans d @ [(next_id d, args)], next_id := next_id d + 1\<rparr>)"
proof -
  let ?doc = "\<lparr>userId = userId args, name = plan.name args, workoutPlan = workoutPlan args,
               dietPlan = dietPlan args, isActive = isActive args\<rparr>"
  from assms have "plan_conforms ?doc"
    by (simp add: plan_conforms_def)
  with assms show ?thesis
    by (simp add: createPlan_def Let_def)
qed

lemma createPlan_rejects:
  assumes "\<not> plan_conforms args"
  shows "createPlan args d = Inl ArgumentValidationError"
  using assms by (simp add: createPlan_def)

lemma handler_calls_createPlan:
  assumes "plan_args env = Inr args"
  shows "handler env b =
           (if plan_conforms args
            then (created (next_id (db b)),
                  \<lparr>db = (db b)\<lparr>plans := plans (db b) @ [(next_id (db b), args)],
                               next_id := next_id (db b) + 1\<rparr>,
                   createPlan_calls = createPlan_calls b @ [args]\<rparr>)
            else (failure, b\<lparr>createPlan_calls := createPlan_calls b @ [args]\<rparr>))"
  using assms
  by (simp add: handler_def runMutation_createPlan_def createPlan_accepts createPlan_rejects
      created_def failure_def)

text \<open>
  C3: if the call of the generative model or the parse of its answer fails (throws) for the
  workout plan or for the diet plan, the handler does not call the mutation that inserts
  the plan and stores nothing: the backend, with its record of the calls of \<^verbatim>\<open>createPlan\<close>,
  is as before, and the caller gets the failure response (status 500, \<^verbatim>\<open>success: false\<close>).
  This covers the diet call throwing after the workout call has answered. The prompts are
  the ones the handler makes of the request's payload.
\<close>

theorem no_insert_when_generation_fails:
  "request_json env = Inr payload \<and> present payload \<and>
   workoutPrompt (property payload ''age'') (property payload ''fitness_goal'')
     (property payload ''weight'') = Inr wp \<and>
   dietPrompt (property payload ''fitness_goal'') = Inr dp \<and>
   (generation_fails env wp \<or> generation_fails env dp)
   \<longrightarrow> handler env b = (failure, b)"
proof
  assume a: "request_json env = Inr payload \<and> present payload \<and>
   workoutPrompt (property payload ''age'') (property payload ''fitness_goal'')
     (property payload ''weight'') = Inr wp \<and>
   dietPrompt (property payload ''fitness_goal'') = Inr dp \<and>
   (generation_fails env wp \<or> generation_fails env dp)"
  then have "\<exists>e. plan_args env = Inl e"
    by (intro plan_args_fails [of env payload wp dp]) simp_all
  then obtain e where "plan_args env = Inl e" ..
  then show "handler env b = (failure, b)"
    by (rule handler_fails)
qed

lemmas string_eval =
  positive_to_string_def dec_digits.simps digit_char_def format_digits_def strip_zeros_def
  frac_digits.simps

lemma intake_prompts:
  "workoutPrompt (property intake ''age'') (property intake ''fitness_goal'')
     (property intake ''weight'') = Inr intake_workoutPrompt"
  "dietPrompt (property intake ''fitness_goal'') = Inr intake_dietPrompt"
  by (simp_all add: intake_def workoutPrompt_def dietPrompt_def intake_workoutPrompt_def
      intake_dietPrompt_def string_eval)

text \<open>The theorem at the request of the intake and the model that answers the workout
  prompt and throws on the diet prompt: nothing is stored in a backend that has one plan.\<close>

theorem no_insert_when_generation_fails_witness:
  "(request_json diet_call_throws = Inr intake \<and> present intake \<and>
    workoutPrompt (property intake ''age'') (property intake ''fitness_goal'')
      (property intake ''weight'') = Inr intake_workoutPrompt \<and>
    dietPrompt (property intake ''fitness_goal'') = Inr intake_dietPrompt \<and>
    (generation_fails diet_call_throws intake_workoutPrompt \<or>
     generation_fails diet_call_throws intake_dietPrompt)) \<and>
   generateContent diet_call_throws intake_workoutPrompt = Inr (Inr ''{}'') \<and>
   generateContent diet_call_throws intake_dietPrompt = Inl GenerationError \<and>
   handler diet_call_throws one_plan_stored = (failure, one_plan_stored)"
  (is "?H \<and> ?W \<and> ?D \<and> ?C")
proof -
  have differ: "intake_dietPrompt \<noteq> intake_workoutPrompt"
    using prompts_differ [OF intake_prompts] by simp
  then have d: ?D
    by (simp add: diet_call_throws_def)
  have w: ?W
    by (simp add: diet_call_throws_def)
  from d have g: "generation_fails diet_call_throws intake_dietPrompt"
    by (simp add: generation_fails_def)
  have r: "request_json diet_call_throws = Inr intake"
    by (simp add: diet_call_throws_def)
  have p: "present intake"
    by (simp add: intake_def present_def)
  from r p intake_prompts g have h: ?H
    by blast
  from no_insert_when_generation_fails
    [of diet_call_throws intake intake_workoutPrompt intake_dietPrompt one_plan_stored] h
  have c: ?C
    by (rule mp)
  from h w d c show ?thesis
    by blast
qed

text \<open>
  C6: when both answers of the model parse and validate, the handler calls the mutation
  \<^verbatim>\<open>createPlan\<close> exactly once, with the user's id, the name made of the goal, the two
  validated plans and \<^verbatim>\<open>isActive: true\<close>; the plans stored before stay as they are, in
  place, and the table of users is untouched. When the store accepts the document, exactly
  one document is added, with these fields, and its id is returned in the response 200;
  when the store rejects it, nothing is added and the response is the failure.
\<close>

theorem one_insert_on_success:
  "request_json env = Inr payload \<and> present payload \<and>
   workoutPrompt (property payload ''age'') (property payload ''fitness_goal'')
     (property payload ''weight'') = Inr wp \<and>
   dietPrompt (property payload ''fitness_goal'') = Inr dp \<and>
   generateContent env wp = Inr (Inr wtext) \<and> generateContent env dp = Inr (Inr dtext) \<and>
   JSON_parse env wtext = Inr wjson \<and> JSON_parse env dtext = Inr djson \<and>
   validateWorkoutPlan wjson = Inr wplan \<and> validateDietPlan djson = Inr dplan \<and>
   ToString (property payload ''fitness_goal'') = Inr goal \<and>
   args = \<lparr>userId = property payload ''user_id'', name = goal @ '' Plan'',
           workoutPlan = wplan, dietPlan = dplan, isActive = True\<rparr>
   \<longrightarrow>
   createPlan_calls (snd (handler env b)) = createPlan_calls b @ [args] \<and>
   users (db (snd (handler env b))) = users (db b) \<and>
   take (length (plans (db b))) (plans (db (snd (handler env b)))) = plans (db b) \<and>
   (plan_conforms args \<longrightarrow>
      fst (handler env b) = created (next_id (db b)) \<and>
      plans (db (snd (handler env b))) = plans (db b) @ [(next_id (db b), args)]) \<and>
   (\<not> plan_conforms args \<longrightarrow>
      fst (handler env b) = failure \<and> db (snd (handler env b)) = db b)"
proof
  assume a: "request_json env = Inr payload \<and> present payload \<and>
   workoutPrompt (property payload ''age'') (property payload ''fitness_goal'')
     (property payload ''weight'') = Inr wp \<and>
   dietPrompt (property payload ''fitness_goal'') = Inr dp \<and>
   generateContent env wp = Inr (Inr wtext) \<and> generateContent env dp = Inr (Inr dtext) \<and>
   JSON_parse env wtext = Inr wjson \<and> JSON_parse env dtext = Inr djson \<and>
   validateWorkoutPlan wjson = Inr wplan \<and> validateDietPlan djson = Inr dplan \<and>
   ToString (property payload ''fitness_goal'') = Inr goal \<and>
   args = \<lparr>userId = property payload ''user_id'', name = goal @ '' Plan'',
           workoutPlan = wplan, dietPlan = dplan, isActive = True\<rparr>"
  then have "plan_args env = Inr args"
    using plan_args_returns [of env payload wp dp wtext dtext wjson djson wplan dplan goal]
    by simp
  note h = handler_calls_createPlan [OF this, of b]
  show "createPlan_calls (snd (handler env b)) = createPlan_calls b @ [args] \<and>
   users (db (snd (handler env b))) = users (db b) \<and>
   take (length (plans (db b))) (plans (db (snd (handler env b)))) = plans (db b) \<and>
   (plan_conforms args \<longrightarrow>
      fst (handler env b) = created (next_id (db b)) \<and>
      plans (db (snd (handler env b))) = plans (db b) @ [(next_id (db b), args)]) \<and>
   (\<not> plan_conforms args \<longrightarrow>
      fst (handler env b) = failure \<and> db (snd (handler env b)) = db b)"
    by (cases "plan_conforms args") (simp_all add: h)
qed

lemma intake_plan_conforms: "plan_conforms intake_plan"
  by (simp add: plan_conforms_def intake_plan_def workoutPlan_validator_def
      dietPlan_validator_def v_required_def v_optional_def)

text \<open>The theorem at the request of the intake and the model that answers both prompts
  with \<^verbatim>\<open>{}\<close>: the plan of the defaults is stored after the one plan the backend had, and
  its id, 1, is returned.\<close>

theorem one_insert_on_success_witness:
  "(request_json both_calls_answer = Inr intake \<and> present intake \<and>
    workoutPrompt (property intake ''age'') (property intake ''fitness_goal'')
      (property intake ''weight'') = Inr intake_workoutPrompt \<and>
    dietPrompt (property intake ''fitness_goal'') = Inr intake_dietPrompt \<and>
    generateContent both_calls_answer intake_workoutPrompt = Inr (Inr ''{}'') \<and>
    generateContent both_calls_answer intake_dietPrompt = Inr (Inr ''{}'') \<and>
    JSON_parse both_calls_answer ''{}'' = Inr (JObj []) \<and>
    JSON_parse both_calls_answer ''{}'' = Inr (JObj []) \<and>
    validateWorkoutPlan (JObj []) = Inr (workoutPlan intake_plan) \<and>
    validateDietPlan (JObj []) = Inr (dietPlan intake_plan) \<and>
    ToString (property intake ''fitness_goal'') = Inr ''build muscle'' \<and>
    intake_plan =
      \<lparr>userId = property intake ''user_id'', name = ''build muscle'' @ '' Plan'',
       workoutPlan = workoutPlan intake_plan, dietPlan = dietPlan intake_plan,
       isActive = True\<rparr>) \<and>
   plan_conforms intake_plan \<and>
   createPlan_calls (snd (handler both_calls_answer one_plan_stored)) =
     [earlier_plan, intake_plan] \<and>
   fst (handler both_calls_answer one_plan_stored) = created 1 \<and>
   plans (db (snd (handler both_calls_answer one_plan_stored))) =
     [(0, earlier_plan), (1, intake_plan)]"
  (is "?H \<and> ?P \<and> ?C1 \<and> ?C2 \<and> ?C3")
proof -
  have e: "request_json both_calls_answer = Inr intake"
    "generateContent both_calls_answer intake_workoutPrompt = Inr (Inr ''{}'')"
    "generateContent both_calls_answer intake_dietPrompt = Inr (Inr ''{}'')"
    "JSON_parse both_calls_answer ''{}'' = Inr (JObj [])"
    by (simp_all add: both_calls_answer_def parse_braces_def)
  have p: "present intake" "ToString (property intake ''fitness_goal'') = Inr ''build muscle''"
    by (simp_all add: intake_def present_def)
  have v: "validateWorkoutPlan (JObj []) = Inr (workoutPlan intake_plan)"
    "validateDietPlan (JObj []) = Inr (dietPlan intake_plan)"
    by (simp_all add: validator_eval intake_plan_def)
  have a: "intake_plan =
      \<lparr>userId = property intake ''user_id'', name = ''build muscle'' @ '' Plan'',
       workoutPlan = workoutPlan intake_plan, dietPlan = dietPlan intake_plan,
       isActive = True\<rparr>"
    by (simp add: intake_plan_def intake_def)
  from e p v a intake_prompts have h: ?H
    by blast
  note t = one_insert_on_success
    [of both_calls_answer intake intake_workoutPrompt intake_dietPrompt "''{}''" "''{}''"
      "JObj []" "JObj []" "workoutPlan intake_plan" "dietPlan intake_plan" "''build muscle''"
      intake_plan one_plan_stored, THEN mp, OF h]
  from t have c1: ?C1
    by (simp add: one_plan_stored_def)
  from t intake_plan_conforms have c2: ?C2 and c3: ?C3
    by (simp_all add: one_plan_stored_def)
  from h intake_plan_conforms c1 c2 c3 show ?thesis
    by blast
qed

end
